theory Spec2Isabelle
  imports Main
begin

section \<open>JavaScript values shared by the services\<close>

text \<open>
  A JavaScript string is a sequence of UTF-16 code units; a code unit is kept as a
  natural number. \<open>js\<close> turns an ASCII literal of the source into its code units.
\<close>

type_synonym js_string = "nat list"

definition js :: "string \<Rightarrow> js_string" where
  "js s = map of_char s"

text \<open>
  \<open>String.prototype.trim\<close> removes white space and line terminators from both ends:
  TAB, LF, VT, FF, CR, SP, NBSP, U+1680, U+2000..U+200A, LS, PS, U+202F, U+205F, U+3000
  and the byte order mark.
\<close>

definition isWhiteSpace :: "nat \<Rightarrow> bool" where
  "isWhiteSpace c =
     (c \<in> set [9, 10, 11, 12, 13, 32, 160, 5760, 8232, 8233, 8239, 8287, 12288, 65279]
      \<or> (8192 \<le> c \<and> c \<le> 8202))"

definition trim :: "js_string \<Rightarrow> js_string" where
  "trim s = rev (dropWhile isWhiteSpace (rev (dropWhile isWhiteSpace s)))"

text \<open>An environment variable is undefined or a string; \<open>!v\<close> holds for both
  undefined and the empty string.\<close>

definition falsy :: "js_string option \<Rightarrow> bool" where
  "falsy v = (case v of None \<Rightarrow> True | Some s \<Rightarrow> s = [])"

text \<open>
  What a \<open>throw\<close> or a rejected promise carries: the \<open>TypeError\<close> of the language
  itself (a property read on undefined or null, a call of a non-function), or an
  \<open>Error\<close> with its message (the ones the services create, and the ones the
  libraries report).
\<close>

datatype js_error = TypeError | Error js_string

section \<open>The Message record\<close>

record attachment =
  filename :: "js_string option"
  contentType :: js_string
  size_field :: nat

text \<open>
  \<open>emailData\<close> as \<open>processEmailMessage\<close> builds it. Dates are milliseconds since
  the epoch. \<open>uid\<close> is undefined when the server sent no attributes; \<open>category\<close> is
  undefined until the classifier has answered.
\<close>

record email_data =
  id_field :: js_string
  uid :: "nat option"
  email :: js_string
  from_field :: js_string
  to_field :: js_string
  subject :: js_string
  date :: int
  text_field :: js_string
  html :: js_string
  attachments :: "attachment list"
  folder :: js_string
  flags :: "js_string list"
  size_of :: nat
  messageId :: js_string
  inReplyTo :: js_string
  references :: js_string
  createdAt :: int
  updatedAt :: int
  category :: "js_string option"

section \<open>aiCategorizationService.js\<close>

text \<open>\<open>this.categories\<close>, in the constructor's order.\<close>

definition categories :: "js_string list" where
  "categories =
     [js ''Interested'', js ''Meeting Booked'', js ''Not Interested'', js ''Spam'',
      js ''Out of Office'']"

text \<open>
  The request handed to \<open>openai.chat.completions.create\<close>: the model name, the two
  messages (role and content) and the token limit. The sampling temperature (0.3) is
  a floating-point constant of the request and is left out.
\<close>

record chat_request =
  model :: js_string
  messages :: "(js_string \<times> js_string) list"
  max_tokens :: nat

text \<open>
  The provider's answer, as far as the service reads it: for every entry of
  \<open>choices\<close>, its \<open>message.content\<close>, or \<open>None\<close> where \<open>message\<close> or \<open>content\<close> is
  missing or null.
\<close>

datatype chat_response = ChatCompletion (choices: "js_string option list")

text \<open>
  What the service finds around it: the credential of the process environment, the
  provider (a black box that answers a request or rejects), and the text
  \<open>Date.prototype.toString\<close> gives for a date inside a template literal.
\<close>

record ai_env =
  OPENAI_API_KEY :: "js_string option"
  create :: "chat_request \<Rightarrow> js_error + chat_response"
  date_toString :: "int \<Rightarrow> js_string"

definition unlines :: "js_string list \<Rightarrow> js_string" where
  "unlines ls = concat (map (\<lambda>l. l @ [10]) ls)"

definition buildCategorizationPrompt :: "ai_env \<Rightarrow> email_data \<Rightarrow> js_string" where
  "buildCategorizationPrompt env emailData =
     unlines
       [[],
        js ''Email Details:'',
        js ''From: '' @ from_field emailData,
        js ''To: '' @ to_field emailData,
        js ''Subject: '' @ subject emailData,
        js ''Date: '' @ date_toString env (date emailData),
        js ''Content: '' @ take 1000 (text_field emailData) @ js ''...'',
        [],
        js ''Please categorize this email into one of the following categories:'',
        js ''- Interested: The email shows genuine interest in a product, service, or opportunity'',
        js ''- Meeting Booked: The email confirms or schedules a meeting, call, or appointment'',
        js ''- Not Interested: The email shows no interest or is a general inquiry'',
        js ''- Spam: The email appears to be spam, promotional, or irrelevant'',
        js ''- Out of Office: The email is an automated out-of-office reply'',
        []]
     @ js ''Category:''"

definition system_prompt :: js_string where
  "system_prompt =
     js ''You are an AI assistant that categorizes emails based on their content and context. ''
     @ js ''Analyze the email and return one of the following categories: ''
     @ js ''Interested, Meeting Booked, Not Interested, Spam, Out of Office. ''
     @ js ''Only return the category name, nothing else.''"

definition categorization_request :: "ai_env \<Rightarrow> email_data \<Rightarrow> chat_request" where
  "categorization_request env emailData =
     \<lparr>model = js ''gpt-3.5-turbo'',
      messages = [(js ''system'', system_prompt),
                  (js ''user'', buildCategorizationPrompt env emailData)],
      max_tokens = 50\<rparr>"

text \<open>
  The body of the \<open>try\<close> block of \<open>categorizeEmail\<close>. \<open>Inl\<close> is an exception on its
  way to the \<open>catch\<close>: the provider's rejection, or the \<open>TypeError\<close> of
  \<open>response.choices[0].message.content.trim()\<close> on an answer without a first choice
  or without content.
\<close>

definition categorizeEmail_try :: "ai_env \<Rightarrow> email_data \<Rightarrow> js_error + js_string" where
  "categorizeEmail_try env emailData =
     (if falsy (OPENAI_API_KEY env) then Inr (js ''Not Interested'')
      else
        (case create env (categorization_request env emailData) of
           Inl err \<Rightarrow> Inl err
         | Inr response \<Rightarrow>
             (case choices response of
                [] \<Rightarrow> Inl TypeError
              | None # _ \<Rightarrow> Inl TypeError
              | Some content # _ \<Rightarrow>
                  (let c = trim content
                   in if c \<in> set categories then Inr c else Inr (js ''Not Interested'')))))"

text \<open>\<open>categorizeEmail\<close>: the \<open>catch\<close> turns every exception into the default.\<close>

definition categorizeEmail :: "ai_env \<Rightarrow> email_data \<Rightarrow> js_string" where
  "categorizeEmail env emailData =
     (case categorizeEmail_try env emailData of
        Inl err \<Rightarrow> js ''Not Interested''
      | Inr c \<Rightarrow> c)"


section \<open>Effects and the world around the services\<close>

text \<open>
  The body of an outbound HTTP call. The JSON text is not rebuilt here: a payload is the
  builder that made it together with the data the builder read
  (\<open>buildSlackMessage\<close>, \<open>buildWebhookPayload\<close> with the event
  \<open>email.interested\<close>, and the batch envelope \<open>email.batch.interested\<close> with its
  \<open>count\<close>).
\<close>

datatype payload =
    SlackMessage email_data
  | WebhookPayload email_data
  | BatchWebhookPayload nat "email_data list"

text \<open>
  One \<open>axios.post(url, body, config)\<close>. \<open>timeout\<close> is the \<open>timeout\<close> key of the
  config object in milliseconds, \<open>None\<close> when the config has no such key (axios then
  waits without a limit).
\<close>

record http_request =
  url :: js_string
  body :: payload
  headers :: "(js_string \<times> js_string) list"
  timeout :: "nat option"

text \<open>
  The criteria array as the service builds it, \<open>['SINCE', d]\<close>: one flat array of two
  elements, the string \<open>SINCE\<close> and the text \<open>d\<close> of a calendar day. The day is kept
  as the number of days since the epoch.
\<close>

datatype search_criteria = SINCE int

text \<open>
  What a run does, in the order it does it. Some effects are calls of the services'
  own entry points: \<open>Categorize\<close> (\<open>categorizeEmail\<close> for the message with that
  id), \<open>SendNotification\<close> and \<open>TriggerWebhook\<close> (the two sinks), \<open>IndexEmail\<close> and
  \<open>UpdateEmailCategory\<close> (the search index service), \<open>Callback\<close> (the completion
  callback of a message). The others leave the process: an HTTP request, an awaited
  timer, a registered interval, an event for a socket room, and the calls on an
  account's Imap object. \<open>Uncaught\<close> is an exception that leaves a callback of the
  event loop with no handler around it; the repository installs no handler for
  uncaught exceptions, so the Node process ends there. \<open>NewEmail\<close> is the object
  emitted with the \<open>new-email\<close> event: id, from, subject, category, date.
\<close>

datatype new_email = NewEmail js_string js_string js_string js_string int

datatype effect =
    Categorize js_string
  | Sleep nat
  | Post http_request
  | SendNotification email_data
  | TriggerWebhook email_data
  | IndexEmail email_data
  | UpdateEmailCategory js_string js_string
  | Emit js_string js_string new_email
  | Callback
  | Connect js_string js_string
  | OpenBox js_string js_string bool
  | Search js_string search_criteria
  | Fetch js_string "nat list"
  | SetInterval js_string nat
  | ConnectionEnd js_string
  | Uncaught js_error

text \<open>What \<open>simpleParser\<close> resolves to, as far as \<open>processEmailMessage\<close> reads it;
  \<open>None\<close> is a field that is undefined (or \<open>false\<close>, for \<open>html\<close>).\<close>

record parsed_mail =
  parsed_from_text :: "js_string option"
  parsed_to_text :: "js_string option"
  parsed_subject :: "js_string option"
  parsed_date :: "int option"
  parsed_text :: "js_string option"
  parsed_html :: "js_string option"
  parsed_attachments :: "attachment list option"
  parsed_messageId :: "js_string option"
  parsed_inReplyTo :: "js_string option"
  parsed_references :: "js_string option"

text \<open>The attributes object of a fetched message; \<open>{}\<close> has every field undefined.\<close>

record attributes =
  attr_uid :: "nat option"
  attr_flags :: "js_string list option"
  attr_size :: "nat option"

text \<open>A message of a mailbox on the server: its sequence number, the server's internal
  date, the bytes of its body stream, and the attributes the server sends (\<open>None\<close> when
  no \<open>attributes\<close> event arrives).\<close>

record mailbox_message =
  seqno :: nat
  internal_date :: int
  raw :: js_string
  attrs :: "attributes option"

text \<open>
  What has come back for a request so far: the success (the \<open>ready\<close> event, the
  callback without an error), the failure (the \<open>error\<close> event, the callback with
  one), or nothing yet.
\<close>

datatype reply = Granted | Refused js_error | Silent

text \<open>
  The mail server of one account, seen from the client: its reply to the connection
  and to the opening of the box, the error of a fetch (after so many messages were
  delivered), whether the call of \<open>end()\<close> throws, and the messages of the box.
\<close>

record imap_server =
  connect_reply :: reply
  openBox_reply :: reply
  fetch_error :: "(nat \<times> js_error) option"
  end_throws :: bool
  mailbox :: "mailbox_message list"

text \<open>
  Everything outside the process: the environment variables, the clock, the HTTP
  endpoint behind \<open>axios.post\<close> (a status, or a rejection), the mail parser, the
  search index client and the mail server of every account.
\<close>

record world =
  EMAIL_ACCOUNTS :: "js_string option"
  EMAIL_PASSWORDS :: "js_string option"
  SLACK_WEBHOOK_URL :: "js_string option"
  WEBHOOK_URL :: "js_string option"
  now :: int
  ai :: ai_env
  axios_post :: "http_request \<Rightarrow> js_error + nat"
  simpleParser :: "js_string \<Rightarrow> js_error + parsed_mail"
  client_index :: "email_data \<Rightarrow> js_error option"
  client_update :: "js_string \<Rightarrow> js_string \<Rightarrow> js_error option"
  imap :: "js_string \<Rightarrow> imap_server"

subsection \<open>batchCategorizeEmails\<close>

text \<open>
  The \<open>for ... of\<close> loop: one awaited \<open>categorizeEmail\<close>, one \<open>push\<close>, one awaited
  timer of 100 ms per email. A result entry is the pair of \<open>id\<close> and \<open>category\<close>.
  \<open>categorizeEmail\<close> has no exception left to throw, so the loop body has none either.
\<close>

fun batch_loop ::
  "ai_env \<Rightarrow> email_data list \<Rightarrow> (js_string \<times> js_string) list \<Rightarrow> effect list \<Rightarrow>
   (js_string \<times> js_string) list \<times> effect list" where
  "batch_loop env [] results tr = (results, tr)"
| "batch_loop env (e # es) results tr =
     batch_loop env es
       (results @ [(id_field e, categorizeEmail env e)])
       (tr @ [Categorize (id_field e), Sleep 100])"

definition batchCategorizeEmails ::
  "ai_env \<Rightarrow> email_data list \<Rightarrow> (js_error + (js_string \<times> js_string) list) \<times> effect list" where
  "batchCategorizeEmails env emails =
     (let (results, tr) = batch_loop env emails [] [] in (Inr results, tr))"

section \<open>The chat sink (SlackService) and the webhook sink (webhookService.js)\<close>

definition slack_request :: "js_string \<Rightarrow> email_data \<Rightarrow> http_request" where
  "slack_request u emailData =
     \<lparr>url = u, body = SlackMessage emailData,
      headers = [(js ''Content-Type'', js ''application/json'')],
      timeout = None\<rparr>"

text \<open>The \<open>try\<close> block of \<open>sendNotification\<close>: the requests it issues, and its value
  or the exception that reaches the \<open>catch\<close>.\<close>

definition sendNotification_try :: "world \<Rightarrow> email_data \<Rightarrow> effect list \<times> (js_error + bool)" where
  "sendNotification_try w emailData =
     (case SLACK_WEBHOOK_URL w of
        None \<Rightarrow> ([], Inr False)
      | Some u \<Rightarrow>
          if u = [] then ([], Inr False)
          else
            (let req = slack_request u emailData
             in case axios_post w req of
                  Inl err \<Rightarrow> ([Post req], Inl err)
                | Inr status \<Rightarrow> ([Post req], Inr (status = 200))))"

definition sendNotification :: "world \<Rightarrow> email_data \<Rightarrow> effect list \<times> bool" where
  "sendNotification w emailData =
     (let (tr, r) = sendNotification_try w emailData
      in (tr, case r of Inl err \<Rightarrow> False | Inr b \<Rightarrow> b))"

definition webhook_headers :: "(js_string \<times> js_string) list" where
  "webhook_headers =
     [(js ''Content-Type'', js ''application/json''),
      (js ''User-Agent'', js ''Reachinbox-Webhook/1.0'')]"

definition webhook_request :: "js_string \<Rightarrow> email_data \<Rightarrow> http_request" where
  "webhook_request u emailData =
     \<lparr>url = u, body = WebhookPayload emailData, headers = webhook_headers,
      timeout = Some 10000\<rparr>"

definition triggerWebhook_try :: "world \<Rightarrow> email_data \<Rightarrow> effect list \<times> (js_error + bool)" where
  "triggerWebhook_try w emailData =
     (case WEBHOOK_URL w of
        None \<Rightarrow> ([], Inr False)
      | Some u \<Rightarrow>
          if u = [] then ([], Inr False)
          else
            (let req = webhook_request u emailData
             in case axios_post w req of
                  Inl err \<Rightarrow> ([Post req], Inl err)
                | Inr status \<Rightarrow> ([Post req], Inr (200 \<le> status \<and> status < 300))))"

definition triggerWebhook :: "world \<Rightarrow> email_data \<Rightarrow> effect list \<times> bool" where
  "triggerWebhook w emailData =
     (let (tr, r) = triggerWebhook_try w emailData
      in (tr, case r of Inl err \<Rightarrow> False | Inr b \<Rightarrow> b))"

definition batch_webhook_request :: "js_string \<Rightarrow> email_data list \<Rightarrow> http_request" where
  "batch_webhook_request u emails =
     \<lparr>url = u, body = BatchWebhookPayload (length emails) emails, headers = webhook_headers,
      timeout = Some 15000\<rparr>"

definition triggerBatchWebhook_try ::
  "world \<Rightarrow> email_data list \<Rightarrow> effect list \<times> (js_error + bool)" where
  "triggerBatchWebhook_try w emails =
     (case WEBHOOK_URL w of
        None \<Rightarrow> ([], Inr False)
      | Some u \<Rightarrow>
          if u = [] then ([], Inr False)
          else
            (let req = batch_webhook_request u emails
             in case axios_post w req of
                  Inl err \<Rightarrow> ([Post req], Inl err)
                | Inr status \<Rightarrow> ([Post req], Inr (200 \<le> status \<and> status < 300))))"

definition triggerBatchWebhook :: "world \<Rightarrow> email_data list \<Rightarrow> effect list \<times> bool" where
  "triggerBatchWebhook w emails =
     (let (tr, r) = triggerBatchWebhook_try w emails
      in (tr, case r of Inl err \<Rightarrow> False | Inr b \<Rightarrow> b))"


section \<open>imapSyncService.js: one message through the pipeline\<close>

text \<open>\<open>v || ''\<close> on a field that is a string or undefined.\<close>

definition or_empty :: "js_string option \<Rightarrow> js_string" where
  "or_empty v = (case v of None \<Rightarrow> [] | Some s \<Rightarrow> s)"

text \<open>The decimal text of a number inside a template literal.\<close>

fun digits :: "nat \<Rightarrow> js_string" where
  "digits n = (if n < 10 then [48 + n] else digits (n div 10) @ [48 + n mod 10])"

definition uid_text :: "nat option \<Rightarrow> js_string" where
  "uid_text u = (case u of None \<Rightarrow> js ''undefined'' | Some n \<Rightarrow> digits n)"

definition empty_attributes :: attributes where
  "empty_attributes = \<lparr>attr_uid = None, attr_flags = None, attr_size = None\<rparr>"

definition attributes_of :: "mailbox_message \<Rightarrow> attributes" where
  "attributes_of msg = (case attrs msg of None \<Rightarrow> empty_attributes | Some a \<Rightarrow> a)"

text \<open>The object literal \<open>emailData\<close> (lines 172 to 191); \<open>new Date()\<close> is the clock.\<close>

definition build_emailData :: "world \<Rightarrow> js_string \<Rightarrow> attributes \<Rightarrow> parsed_mail \<Rightarrow> email_data" where
  "build_emailData w acct a parsed =
     \<lparr>id_field = acct @ js ''_'' @ uid_text (attr_uid a),
      uid = attr_uid a,
      email = acct,
      from_field = or_empty (parsed_from_text parsed),
      to_field = or_empty (parsed_to_text parsed),
      subject = or_empty (parsed_subject parsed),
      date = (case parsed_date parsed of None \<Rightarrow> now w | Some d \<Rightarrow> d),
      text_field = or_empty (parsed_text parsed),
      html = or_empty (parsed_html parsed),
      attachments = (case parsed_attachments parsed of None \<Rightarrow> [] | Some xs \<Rightarrow> xs),
      folder = js ''INBOX'',
      flags = (case attr_flags a of None \<Rightarrow> [] | Some fs \<Rightarrow> fs),
      size_of = (case attr_size a of None \<Rightarrow> 0 | Some n \<Rightarrow> n),
      messageId = or_empty (parsed_messageId parsed),
      inReplyTo = or_empty (parsed_inReplyTo parsed),
      references = or_empty (parsed_references parsed),
      createdAt = now w,
      updatedAt = now w,
      category = None\<rparr>"

text \<open>Lines 203 to 207: both sinks, one after the other, for \<open>Interested\<close> only. Neither
  sink has an exception to throw, so the second call follows the first whatever the
  first returned.\<close>

definition notify_interested :: "world \<Rightarrow> email_data \<Rightarrow> js_string \<Rightarrow> effect list" where
  "notify_interested w emailData c =
     (if c = js ''Interested''
      then SendNotification emailData # fst (sendNotification w emailData)
           @ TriggerWebhook emailData # fst (triggerWebhook w emailData)
      else [])"

definition new_email_event :: "email_data \<Rightarrow> js_string \<Rightarrow> effect" where
  "new_email_event emailData c =
     Emit (js ''email-updates'') (js ''new-email'')
       (NewEmail (id_field emailData) (from_field emailData) (subject emailData) c
          (date emailData))"

text \<open>Lines 203 to 216: the sinks for \<open>Interested\<close>, then the event for the room
  \<open>email-updates\<close>.\<close>

definition fan_out :: "world \<Rightarrow> email_data \<Rightarrow> js_string \<Rightarrow> effect list" where
  "fan_out w emailData c = notify_interested w emailData c @ [new_email_event emailData c]"

text \<open>
  The \<open>try\<close> block of the \<open>end\<close> handler: the calls made so far, and the exception
  that stopped them, if any. \<open>IndexEmail\<close> and \<open>UpdateEmailCategory\<close> are the calls
  of the search index service; it logs and rethrows what its client rejects with.
\<close>

definition processEmailMessage_try ::
  "world \<Rightarrow> js_string \<Rightarrow> mailbox_message \<Rightarrow> effect list \<times> js_error option" where
  "processEmailMessage_try w acct msg =
     (case simpleParser w (raw msg) of
        Inl err \<Rightarrow> ([], Some err)
      | Inr parsed \<Rightarrow>
          (let emailData = build_emailData w acct (attributes_of msg) parsed
           in case client_index w emailData of
                Some err \<Rightarrow> ([IndexEmail emailData], Some err)
              | None \<Rightarrow>
                  (let c = categorizeEmail (ai w) emailData;
                       categorized = emailData\<lparr>category := Some c\<rparr>;
                       tr = [IndexEmail emailData,
                             Categorize (id_field emailData),
                             UpdateEmailCategory (id_field categorized) c]
                   in case client_update w (id_field categorized) c of
                        Some err \<Rightarrow> (tr, Some err)
                      | None \<Rightarrow>
                          (tr @ fan_out w categorized c, None))))"

text \<open>\<open>processEmailMessage\<close>: the \<open>try\<close> ends with \<open>callback()\<close>, and so does the
  \<open>catch\<close>.\<close>

definition processEmailMessage :: "world \<Rightarrow> js_string \<Rightarrow> mailbox_message \<Rightarrow> effect list" where
  "processEmailMessage w acct msg =
     (case processEmailMessage_try w acct msg of
        (tr, None) \<Rightarrow> tr @ [Callback]
      | (tr, Some err) \<Rightarrow> tr @ [Callback])"

section \<open>imapSyncService.js: searches, ticks and the service's lifecycle\<close>

text \<open>
  \<open>moment().subtract(...).format('DD-MMM-YYYY')\<close> keeps the calendar day of an instant
  and drops the time of day. Instants are milliseconds since the epoch, in the zone the
  process formats in; the day is kept as its number instead of its text.
\<close>

definition format_DD_MMM_YYYY :: "int \<Rightarrow> int" where
  "format_DD_MMM_YYYY t = t div 86400000"

text \<open>The outcome of a promise; \<open>Pending\<close> is one that is not settled.\<close>

datatype 'a promise = Resolved 'a | Rejected js_error | Pending

text \<open>
  \<open>imap.search(criteria, callback)\<close> of the IMAP client library (node-imap; not code of
  the repository). The library reads every element of the criteria array as one
  criterion: a string is a criterion without an argument, a nested array is a
  criterion followed by its arguments. \<open>SINCE\<close> takes one argument, so for the flat
  array of the service the library throws while it builds the command, before
  anything is sent and without ever calling back. \<open>Inl\<close> is that exception; \<open>Inr\<close>
  would be what the callback receives, an error or the matching sequence numbers.
\<close>

fun imap_search :: "imap_server \<Rightarrow> search_criteria \<Rightarrow> js_error + (js_error + nat list)" where
  "imap_search srv (SINCE d) =
     Inl (Error (js ''Incorrect number of arguments for search option: SINCE''))"

text \<open>The server's side of a fetch: the messages with the given sequence numbers.\<close>

definition imap_fetch :: "imap_server \<Rightarrow> nat list \<Rightarrow> mailbox_message list" where
  "imap_fetch srv results = filter (\<lambda>m. seqno m \<in> set results) (mailbox srv)"

text \<open>The messages of one fetch, each through \<open>processEmailMessage\<close>. The handlers of
  different messages may interleave; the trace keeps each message's own order.\<close>

definition process_batch :: "world \<Rightarrow> js_string \<Rightarrow> mailbox_message list \<Rightarrow> effect list" where
  "process_batch w acct msgs = concat (map (processEmailMessage w acct) msgs)"

text \<open>
  The callback \<open>syncEmails\<close> hands to \<open>imap.search\<close> (lines 115 to 149): reject on an
  error, resolve on an empty result, otherwise fetch and resolve when as many messages
  have called back as the search found. A fetch error arrives after the given number
  of messages and before their handlers are through, so it rejects.
\<close>

definition syncEmails_found ::
  "world \<Rightarrow> js_string \<Rightarrow> js_error + nat list \<Rightarrow> effect list \<times> unit promise" where
  "syncEmails_found w acct answer =
     (case answer of
        Inl err \<Rightarrow> ([], Rejected err)
      | Inr results \<Rightarrow>
          if results = [] then ([], Resolved ())
          else
            (let msgs = imap_fetch (imap w acct) results
             in case fetch_error (imap w acct) of
                  Some (k, err) \<Rightarrow>
                    (Fetch acct results # process_batch w acct (take k msgs), Rejected err)
                | None \<Rightarrow>
                    (Fetch acct results # process_batch w acct msgs,
                     if length results \<le> length msgs then Resolved () else Pending)))"

text \<open>
  \<open>syncEmails\<close>: the calls made and the outcome of the promise. The call of
  \<open>imap.search\<close> is inside the callback of \<open>openBox\<close>, which the library runs from its
  own handler after the promise's executor has returned: an exception there reaches
  neither \<open>reject\<close> nor a \<open>catch\<close>, so it is uncaught and the promise stays pending.
\<close>

definition syncEmails :: "world \<Rightarrow> js_string \<Rightarrow> effect list \<times> unit promise" where
  "syncEmails w acct =
     (let srv = imap w acct;
          opened = [OpenBox acct (js ''INBOX'') True]
      in case openBox_reply srv of
           Silent \<Rightarrow> (opened, Pending)
         | Refused err \<Rightarrow> (opened, Rejected err)
         | Granted \<Rightarrow>
             (let thirtyDaysAgo = format_DD_MMM_YYYY (now w - 30 * 86400000);
                  searchCriteria = SINCE thirtyDaysAgo
              in case imap_search srv searchCriteria of
                   Inl thrown \<Rightarrow> (opened @ [Uncaught thrown], Pending)
                 | Inr answer \<Rightarrow>
                     (let (tr, p) = syncEmails_found w acct answer
                      in (opened @ [Search acct searchCriteria] @ tr, p))))"

text \<open>
  The state of a service instance: its own properties \<open>connections\<close> (a Map from an
  account to its Imap object, in insertion order) and \<open>isRunning\<close>, the Imap objects
  the Map and the closures point to (an object is its index in \<open>imap_objects\<close>), and
  the timers registered with \<open>setInterval\<close> (account and period).
\<close>

datatype session_state = Connecting | Ready | LoggingOut | Closed

record imap_sync_service =
  connections :: "(js_string \<times> nat) list"
  isRunning :: bool
  imap_objects :: "session_state list"
  intervals :: "(js_string \<times> nat) list"

definition map_has :: "js_string \<Rightarrow> (js_string \<times> nat) list \<Rightarrow> bool" where
  "map_has k m = (map_of m k \<noteq> None)"

definition map_set :: "js_string \<Rightarrow> nat \<Rightarrow> (js_string \<times> nat) list \<Rightarrow> (js_string \<times> nat) list" where
  "map_set k v m =
     (if map_has k m then map (\<lambda>(k', v'). if k' = k then (k', v) else (k', v')) m
      else m @ [(k, v)])"

definition map_delete :: "js_string \<Rightarrow> (js_string \<times> nat) list \<Rightarrow> (js_string \<times> nat) list" where
  "map_delete k m = filter (\<lambda>(k', v'). k' \<noteq> k) m"

text \<open>The state the constructor leaves.\<close>

definition constructor :: imap_sync_service where
  "constructor = \<lparr>connections = [], isRunning = False, imap_objects = [], intervals = []\<rparr>"

text \<open>
  \<open>checkForNewEmails\<close>, the function \<open>setupIdleMode\<close> hands to \<open>setInterval\<close>: one
  tick for one account, at the instant \<open>now w\<close>. Its \<open>imap.search\<close> is again inside
  the callback of \<open>openBox\<close>.
\<close>

definition checkForNewEmails :: "world \<Rightarrow> imap_sync_service \<Rightarrow> js_string \<Rightarrow> effect list" where
  "checkForNewEmails w s acct =
     (if \<not> map_has acct (connections s) then []
      else
        (let srv = imap w acct;
             opened = [OpenBox acct (js ''INBOX'') True]
         in case openBox_reply srv of
              Silent \<Rightarrow> opened
            | Refused err \<Rightarrow> opened
            | Granted \<Rightarrow>
                (let lastCheck = format_DD_MMM_YYYY (now w - 60000);
                     searchCriteria = SINCE lastCheck
                 in case imap_search srv searchCriteria of
                      Inl thrown \<Rightarrow> opened @ [Uncaught thrown]
                    | Inr (Inl err) \<Rightarrow> opened @ [Search acct searchCriteria]
                    | Inr (Inr results) \<Rightarrow>
                        if results \<noteq> []
                        then
                          (let msgs = imap_fetch srv results;
                               delivered =
                                 (case fetch_error srv of
                                    None \<Rightarrow> msgs
                                  | Some (k, err) \<Rightarrow> take k msgs)
                           in opened @ [Search acct searchCriteria, Fetch acct results]
                              @ process_batch w acct delivered)
                        else opened @ [Search acct searchCriteria])))"

definition setupIdleMode :: "imap_sync_service \<Rightarrow> js_string \<Rightarrow> imap_sync_service \<times> effect list" where
  "setupIdleMode s acct =
     (s\<lparr>intervals := intervals s @ [(acct, 60000)]\<rparr>, [SetInterval acct 60000])"

text \<open>
  \<open>initializeConnection\<close>: a new Imap object and \<open>connect()\<close>; then nothing yet, or
  the \<open>error\<close> event (the promise rejects), or the \<open>ready\<close> handler: register the
  object, await the initial sync, and on its success set up the ticks and resolve.
\<close>

definition initializeConnection ::
  "world \<Rightarrow> imap_sync_service \<Rightarrow> js_string \<Rightarrow> js_string \<Rightarrow>
   imap_sync_service \<times> effect list \<times> unit promise" where
  "initializeConnection w s acct password =
     (let a = length (imap_objects s);
          connecting = [Connect acct password]
      in case connect_reply (imap w acct) of
           Silent \<Rightarrow> (s\<lparr>imap_objects := imap_objects s @ [Connecting]\<rparr>, connecting, Pending)
         | Refused err \<Rightarrow>
             (s\<lparr>imap_objects := imap_objects s @ [Closed]\<rparr>, connecting, Rejected err)
         | Granted \<Rightarrow>
             (let s1 = s\<lparr>imap_objects := imap_objects s @ [Ready],
                         connections := map_set acct a (connections s)\<rparr>
              in case syncEmails w acct of
                   (tr, Rejected err) \<Rightarrow> (s1, connecting @ tr, Rejected err)
                 | (tr, Pending) \<Rightarrow> (s1, connecting @ tr, Pending)
                 | (tr, Resolved u) \<Rightarrow>
                     (let (s2, tr2) = setupIdleMode s1 acct
                      in (s2, connecting @ tr @ tr2, Resolved ()))))"

text \<open>\<open>String.prototype.split\<close> with a separator of one code unit; the result is never
  the empty array.\<close>

fun split :: "nat \<Rightarrow> js_string \<Rightarrow> js_string list" where
  "split sep [] = [[]]"
| "split sep (c # cs) =
     (if c = sep then [] # split sep cs
      else (case split sep cs of [] \<Rightarrow> [[c]] | p # ps \<Rightarrow> (c # p) # ps))"

definition env_list :: "js_string option \<Rightarrow> js_string list" where
  "env_list v = (case v of None \<Rightarrow> [] | Some x \<Rightarrow> split 44 x)"

text \<open>The \<open>for\<close> loop of \<open>start\<close>: the accounts in order, each awaited before the
  next; a rejection leaves the loop, a promise that stays pending holds it.\<close>

fun start_loop ::
  "world \<Rightarrow> (js_string \<times> js_string) list \<Rightarrow> imap_sync_service \<Rightarrow> effect list \<Rightarrow>
   imap_sync_service \<times> effect list \<times> unit promise" where
  "start_loop w [] s tr = (s, tr, Resolved ())"
| "start_loop w ((e, p) # rest) s tr =
     (case initializeConnection w s (trim e) (trim p) of
        (s', tr', Rejected err) \<Rightarrow> (s', tr @ tr', Rejected err)
      | (s', tr', Pending) \<Rightarrow> (s', tr @ tr', Pending)
      | (s', tr', Resolved u) \<Rightarrow> start_loop w rest s' (tr @ tr'))"

definition start ::
  "world \<Rightarrow> imap_sync_service \<Rightarrow> imap_sync_service \<times> effect list \<times> unit promise" where
  "start w s =
     (let emailAccounts = env_list (EMAIL_ACCOUNTS w);
          emailPasswords = env_list (EMAIL_PASSWORDS w)
      in if length emailAccounts = 0
         then (s, [], Rejected (Error (js ''No email accounts configured'')))
         else if length emailAccounts \<noteq> length emailPasswords
         then (s, [], Rejected (Error (js ''Email accounts and passwords count mismatch'')))
         else
           (case start_loop w (zip emailAccounts emailPasswords) s [] of
              (s', tr, Rejected err) \<Rightarrow> (s', tr, Rejected err)
            | (s', tr, Pending) \<Rightarrow> (s', tr, Pending)
            | (s', tr, Resolved u) \<Rightarrow> (s'\<lparr>isRunning := True\<rparr>, tr, Resolved ())))"

text \<open>
  \<open>connection.end()\<close> asks the server to log out; the session is closed only when the
  \<open>end\<close> event of the Imap object arrives, in a later turn of the event loop. A call
  that throws leaves the object as it was.
\<close>

definition imap_end :: "session_state \<Rightarrow> session_state" where
  "imap_end st = (case st of Ready \<Rightarrow> LoggingOut | Connecting \<Rightarrow> LoggingOut | other \<Rightarrow> other)"

fun stop_loop ::
  "world \<Rightarrow> (js_string \<times> nat) list \<Rightarrow> session_state list \<Rightarrow> effect list \<Rightarrow>
   session_state list \<times> effect list" where
  "stop_loop w [] objs tr = (objs, tr)"
| "stop_loop w ((acct, a) # cs) objs tr =
     (if end_throws (imap w acct)
      then stop_loop w cs objs (tr @ [ConnectionEnd acct])
      else stop_loop w cs (objs[a := imap_end (objs ! a)]) (tr @ [ConnectionEnd acct]))"

text \<open>\<open>stop\<close> has no \<open>await\<close>: it runs to its end in the turn that called it.\<close>

definition stop :: "world \<Rightarrow> imap_sync_service \<Rightarrow> imap_sync_service \<times> effect list" where
  "stop w s =
     (let (objs, tr) = stop_loop w (connections s) (imap_objects s) []
      in (s\<lparr>isRunning := False, connections := [], imap_objects := objs\<rparr>, tr))"

text \<open>The \<open>end\<close> handler registered by \<open>initializeConnection\<close>, run when the Imap
  object \<open>a\<close> of the account reports that its session is closed.\<close>

definition on_end :: "imap_sync_service \<Rightarrow> js_string \<times> nat \<Rightarrow> imap_sync_service" where
  "on_end s ev =
     (case ev of (acct, a) \<Rightarrow>
        s\<lparr>connections := map_delete acct (connections s),
          imap_objects := (imap_objects s)[a := Closed]\<rparr>)"

subsection \<open>Property lookup on the instance\<close>

text \<open>
  A property read \<open>o.name\<close> takes the object's own property if there is one, and the
  prototype's otherwise. The constructor assigns the own properties; the class body
  puts the methods on the prototype. A call \<open>o.name()\<close> of a value that is not a
  function throws a \<open>TypeError\<close>.
\<close>

datatype js_value = Boolean bool | Function string | Object

definition own_property :: "imap_sync_service \<Rightarrow> string \<Rightarrow> js_value option" where
  "own_property s name =
     (if name = ''isRunning'' then Some (Boolean (isRunning s))
      else if name \<in> set [''elasticsearchService'', ''aiCategorizationService'',
                           ''slackService'', ''webhookService'', ''io'', ''connections'',
                           ''logger'']
      then Some Object
      else None)"

definition prototype_property :: "string \<Rightarrow> js_value option" where
  "prototype_property name =
     (if name \<in> set [''constructor'', ''start'', ''initializeConnection'', ''syncEmails'',
                      ''processEmailMessage'', ''setupIdleMode'', ''stop'', ''isRunning'',
                      ''getConnectionStatus'']
      then Some (Function name)
      else None)"

definition get_property :: "imap_sync_service \<Rightarrow> string \<Rightarrow> js_value option" where
  "get_property s name =
     (case own_property s name of Some v \<Rightarrow> Some v | None \<Rightarrow> prototype_property name)"

text \<open>The body of the prototype's method: \<open>return this.isRunning\<close>.\<close>

definition isRunning_method :: "imap_sync_service \<Rightarrow> js_value option" where
  "isRunning_method s = get_property s ''isRunning''"

text \<open>The expression \<open>this.imapSyncService.isRunning()\<close> of the \<open>/health\<close> handler.\<close>

definition call_isRunning :: "imap_sync_service \<Rightarrow> js_error + js_value option" where
  "call_isRunning s =
     (case get_property s ''isRunning'' of
        Some (Function f) \<Rightarrow> Inr (isRunning_method s)
      | other \<Rightarrow> Inl TypeError)"

text \<open>The status of the answer to \<open>GET /health\<close>: the handler's \<open>res.json\<close> answers
  200; an exception thrown while the handler builds its object goes to the error
  middleware, which answers 500.\<close>

definition health_status :: "imap_sync_service \<Rightarrow> nat" where
  "health_status s = (case call_isRunning s of Inl err \<Rightarrow> 500 | Inr v \<Rightarrow> 200)"


section \<open>Concrete runs\<close>

text \<open>Two validated emails of a batch request, and providers to answer them.\<close>

definition mail_a :: email_data where
  "mail_a =
     \<lparr>id_field = js ''1'', uid = None, email = [], from_field = js ''lead@x.com'',
      to_field = js ''a@x.com'', subject = js ''Meeting Request'', date = 0,
      text_field = js ''Can we schedule a meeting?'', html = [], attachments = [],
      folder = [], flags = [], size_of = 0, messageId = [], inReplyTo = [],
      references = [], createdAt = 0, updatedAt = 0, category = None\<rparr>"

definition mail_b :: email_data where
  "mail_b = mail_a\<lparr>id_field := js ''2'', subject := js ''Re: pricing''\<rparr>"

definition no_key_env :: ai_env where
  "no_key_env =
     \<lparr>OPENAI_API_KEY = None,
      create = (\<lambda>r. Inr (ChatCompletion [Some (js ''Interested'')])),
      date_toString = (\<lambda>d. [])\<rparr>"

text \<open>A provider whose first choice always has the given content.\<close>

definition answering :: "js_string \<Rightarrow> ai_env" where
  "answering c =
     \<lparr>OPENAI_API_KEY = Some (js ''sk-test''),
      create = (\<lambda>r. Inr (ChatCompletion [Some c])),
      date_toString = (\<lambda>d. [])\<rparr>"

text \<open>A provider that rejects the request with the given subject line and answers
  \<open>Interested\<close> to every other.\<close>

definition failing_on :: "js_string \<Rightarrow> ai_env" where
  "failing_on subj =
     \<lparr>OPENAI_API_KEY = Some (js ''sk-test''),
      create = (\<lambda>r. if take (length subj) (drop 54 (snd (last (messages r)))) = subj
                     then Inl (Error (js ''429''))
                     else Inr (ChatCompletion [Some (js ''Interested'')])),
      date_toString = (\<lambda>d. [])\<rparr>"

text \<open>
  A world for the pipeline: one account \<open>a@x.com\<close>, both sinks configured, a provider
  that answers \<open>Interested\<close>, a chat endpoint that refuses connections and a webhook
  endpoint that answers 200. The parser finds no field in the payload \<open>garbage\<close> nor
  in the empty payload (the parsed mail has its empty list of attachments and nothing
  else) and finds a lead's mail in any other. The server accepts the login and opens
  the box. The clock stands at 2026-11-03 15:00; the mailbox holds a message of
  2026-10-03 23:00, one of 2026-10-04 09:00 and one of 2026-11-03 10:00.
\<close>

definition bare_mail :: parsed_mail where
  "bare_mail =
     \<lparr>parsed_from_text = None, parsed_to_text = None, parsed_subject = None,
      parsed_date = None, parsed_text = None, parsed_html = None,
      parsed_attachments = Some [], parsed_messageId = None, parsed_inReplyTo = None,
      parsed_references = None\<rparr>"

definition lead_mail :: parsed_mail where
  "lead_mail =
     bare_mail\<lparr>parsed_from_text := Some (js ''lead@x.com''),
                parsed_to_text := Some (js ''a@x.com''),
                parsed_subject := Some (js ''Pricing''),
                parsed_date := Some 1793700000000,
                parsed_text := Some (js ''We would like a demo'')\<rparr>"

definition attrs_of_uid :: "nat \<Rightarrow> attributes option" where
  "attrs_of_uid n = Some \<lparr>attr_uid = Some n, attr_flags = Some [], attr_size = Some 512\<rparr>"

definition old_message :: mailbox_message where
  "old_message =
     \<lparr>seqno = 1, internal_date = 1791068400000, raw = [], attrs = attrs_of_uid 11\<rparr>"

definition garbage_message :: mailbox_message where
  "garbage_message =
     \<lparr>seqno = 2, internal_date = 1791104400000, raw = js ''garbage'',
      attrs = attrs_of_uid 12\<rparr>"

definition lead_message :: mailbox_message where
  "lead_message =
     \<lparr>seqno = 3, internal_date = 1793700000000, raw = js ''Subject: Pricing'',
      attrs = attrs_of_uid 13\<rparr>"

definition demo_mailbox :: "mailbox_message list" where
  "demo_mailbox = [old_message, garbage_message, lead_message]"

definition demo_server :: imap_server where
  "demo_server =
     \<lparr>connect_reply = Granted, openBox_reply = Granted, fetch_error = None,
      end_throws = False, mailbox = demo_mailbox\<rparr>"

definition demo_parser :: "js_string \<Rightarrow> js_error + parsed_mail" where
  "demo_parser buffer =
     (if buffer = js ''garbage'' \<or> buffer = [] then Inr bare_mail else Inr lead_mail)"

definition slack_url :: js_string where
  "slack_url = js ''https://chat.test/hook''"

definition sink_url :: js_string where
  "sink_url = js ''https://sink.test/hook''"

definition demo_world :: world where
  "demo_world =
     \<lparr>EMAIL_ACCOUNTS = Some (js ''a@x.com''),
      EMAIL_PASSWORDS = Some (js ''secret''),
      SLACK_WEBHOOK_URL = Some slack_url,
      WEBHOOK_URL = Some sink_url,
      now = 1793718000000,
      ai = answering (js ''Interested''),
      axios_post = (\<lambda>r. if url r = slack_url then Inl (Error (js ''ECONNREFUSED'')) else Inr 200),
      simpleParser = demo_parser,
      client_index = (\<lambda>e. None),
      client_update = (\<lambda>i c. None),
      imap = (\<lambda>acct. demo_server)\<rparr>"

text \<open>The same world with the failures swapped: the chat endpoint answers 200, the
  webhook endpoint refuses.\<close>

definition swapped_world :: world where
  "swapped_world =
     demo_world\<lparr>axios_post :=
       (\<lambda>r. if url r = slack_url then Inr 200 else Inl (Error (js ''ECONNREFUSED'')))\<rparr>"

text \<open>
  A payload whose header section is one line of more than 4 MiB. The mail parser's
  splitter gives up on a header section beyond its limit (1 MiB), and \<open>simpleParser\<close>
  rejects with the splitter's error.
\<close>

definition padding :: js_string where
  "padding = replicate 4194304 97"

definition oversized_header :: js_string where
  "oversized_header = js ''X-Pad: '' @ padding @ [13, 10, 13, 10]"

definition oversized_message :: mailbox_message where
  "oversized_message =
     \<lparr>seqno = 4, internal_date = 1793700000000, raw = oversized_header,
      attrs = attrs_of_uid 14\<rparr>"

definition oversized_world :: world where
  "oversized_world =
     demo_world\<lparr>simpleParser :=
       (\<lambda>buffer. if buffer = oversized_header
                  then Inl (Error (js ''Max header size for a MIME node exceeded''))
                  else demo_parser buffer)\<rparr>"

text \<open>Both variables set to the empty string; nothing has come back yet for a
  connection.\<close>

definition blank_world :: world where
  "blank_world =
     demo_world\<lparr>EMAIL_ACCOUNTS := Some [], EMAIL_PASSWORDS := Some [],
                 imap := (\<lambda>acct. demo_server\<lparr>connect_reply := Silent\<rparr>)\<rparr>"

text \<open>The server has accepted the login and has not yet answered \<open>openBox\<close>.\<close>

definition waiting_world :: world where
  "waiting_world = demo_world\<lparr>imap := (\<lambda>acct. demo_server\<lparr>openBox_reply := Silent\<rparr>)\<rparr>"

text \<open>The server has not yet answered the connection.\<close>

definition connecting_world :: world where
  "connecting_world = demo_world\<lparr>imap := (\<lambda>acct. demo_server\<lparr>connect_reply := Silent\<rparr>)\<rparr>"

section \<open>The classification gateway\<close>

lemma categorizeEmail_try_in_categories:
  "categorizeEmail_try env e = Inr c \<Longrightarrow> c \<in> set categories"
  by (auto simp: categorizeEmail_try_def categories_def Let_def
           split: if_splits sum.splits list.splits option.splits)

lemma default_in_categories: "js ''Not Interested'' \<in> set categories"
  by (simp add: categories_def)

text \<open>
  C1, as the code has it. \<open>categorizeEmail\<close> returns one of the five categories for
  every message and every behaviour of the provider. It returns the default
  \<open>Not Interested\<close> when the credential is absent or empty, when the provider call
  rejects, and when the answer has no first choice with content or its content, after
  \<open>trim()\<close>, is not one of the five category strings.
\<close>

theorem categorizeEmail_closed:
  "categorizeEmail env e \<in> set categories \<and>
   (falsy (OPENAI_API_KEY env) \<longrightarrow> categorizeEmail env e = js ''Not Interested'') \<and>
   (\<forall>err. create env (categorization_request env e) = Inl err \<longrightarrow>
      categorizeEmail env e = js ''Not Interested'') \<and>
   (\<forall>r. create env (categorization_request env e) = Inr r \<longrightarrow>
      (case choices r of
         Some content # rest \<Rightarrow> trim content \<notin> set categories
       | other \<Rightarrow> True) \<longrightarrow>
      categorizeEmail env e = js ''Not Interested'')"
proof (intro conjI allI impI)
  show "categorizeEmail env e \<in> set categories"
  proof (cases "categorizeEmail_try env e")
    case (Inl err)
    then show ?thesis by (simp add: categorizeEmail_def default_in_categories)
  next
    case (Inr c)
    then show ?thesis
      using categorizeEmail_try_in_categories [of env e c] by (simp add: categorizeEmail_def)
  qed
next
  assume "falsy (OPENAI_API_KEY env)"
  then show "categorizeEmail env e = js ''Not Interested''"
    by (simp add: categorizeEmail_def categorizeEmail_try_def)
next
  fix err
  assume "create env (categorization_request env e) = Inl err"
  then show "categorizeEmail env e = js ''Not Interested''"
    by (simp add: categorizeEmail_def categorizeEmail_try_def)
next
  fix r
  assume "create env (categorization_request env e) = Inr r"
    and "case choices r of
           Some content # rest \<Rightarrow> trim content \<notin> set categories
         | other \<Rightarrow> True"
  then show "categorizeEmail env e = js ''Not Interested''"
    by (auto simp: categorizeEmail_def categorizeEmail_try_def Let_def
             split: list.splits option.splits)
qed

theorem categorizeEmail_closed_witness:
  "falsy (OPENAI_API_KEY no_key_env) \<and>
   categorizeEmail no_key_env mail_a = js ''Not Interested'' \<and>
   create (failing_on (js ''Re: pricing''))
     (categorization_request (failing_on (js ''Re: pricing'')) mail_b) = Inl (Error (js ''429'')) \<and>
   categorizeEmail (failing_on (js ''Re: pricing'')) mail_b = js ''Not Interested'' \<and>
   create (answering (js ''Maybe''))
     (categorization_request (answering (js ''Maybe'')) mail_a)
     = Inr (ChatCompletion [Some (js ''Maybe'')]) \<and>
   trim (js ''Maybe'') \<notin> set categories \<and>
   categorizeEmail (answering (js ''Maybe'')) mail_a = js ''Not Interested'' \<and>
   categorizeEmail (answering (js ''Maybe'')) mail_a \<in> set categories"
proof -
  have k: "falsy (OPENAI_API_KEY no_key_env)"
    by (simp add: no_key_env_def falsy_def)
  have f: "create (failing_on (js ''Re: pricing''))
     (categorization_request (failing_on (js ''Re: pricing'')) mail_b) = Inl (Error (js ''429''))"
    by (simp add: failing_on_def categorization_request_def buildCategorizationPrompt_def
          unlines_def mail_b_def mail_a_def js_def)
  have a: "create (answering (js ''Maybe''))
     (categorization_request (answering (js ''Maybe'')) mail_a)
     = Inr (ChatCompletion [Some (js ''Maybe'')])"
    by (simp add: answering_def)
  have t: "trim (js ''Maybe'') \<notin> set categories"
    by (simp add: trim_def isWhiteSpace_def categories_def js_def)
  show ?thesis
    using k f a t categorizeEmail_closed [of no_key_env mail_a]
      categorizeEmail_closed [of "failing_on (js ''Re: pricing'')" mail_b]
      categorizeEmail_closed [of "answering (js ''Maybe'')" mail_a]
    by (simp add: default_in_categories)
qed

text \<open>
  C1 as stated fails: the answer \<open>Spam\<close> followed by a line feed is not one of the
  five strings, and the service returns \<open>Spam\<close> for it, not the default.
\<close>

theorem categorizeEmail_untrimmed_counterexample:
  "create (answering (js ''Spam'' @ [10]))
     (categorization_request (answering (js ''Spam'' @ [10])) mail_a)
     = Inr (ChatCompletion [Some (js ''Spam'' @ [10])]) \<and>
   js ''Spam'' @ [10] \<notin> set categories \<and>
   categorizeEmail (answering (js ''Spam'' @ [10])) mail_a = js ''Spam'' \<and>
   js ''Spam'' \<noteq> js ''Not Interested''"
  by (simp add: answering_def categorizeEmail_def categorizeEmail_try_def falsy_def
        trim_def isWhiteSpace_def categories_def js_def)

lemma batch_loop_eq:
  "batch_loop env es results tr =
     (results @ map (\<lambda>e. (id_field e, categorizeEmail env e)) es,
      tr @ concat (map (\<lambda>e. [Categorize (id_field e), Sleep 100]) es))"
  by (induction es arbitrary: results tr) simp_all

lemma batchCategorizeEmails_eq:
  "batchCategorizeEmails env emails =
     (Inr (map (\<lambda>e. (id_field e, categorizeEmail env e)) emails),
      concat (map (\<lambda>e. [Categorize (id_field e), Sleep 100]) emails))"
  by (simp add: batchCategorizeEmails_def batch_loop_eq)

text \<open>
  C7. For every list of emails \<open>batchCategorizeEmails\<close> resolves with a list of the
  same length in input order; the calls are made one after the other, each followed by
  a pause of 100 ms; an entry whose classification threw carries \<open>Not Interested\<close>, any
  other carries what the classification returned; no failure aborts the batch.
\<close>

theorem batchCategorizeEmails_complete:
  "\<exists>results.
     batchCategorizeEmails env emails =
       (Inr results, concat (map (\<lambda>e. [Categorize (id_field e), Sleep 100]) emails)) \<and>
     length results = length emails \<and>
     (\<forall>i < length emails.
        fst (results ! i) = id_field (emails ! i) \<and>
        (\<forall>err. categorizeEmail_try env (emails ! i) = Inl err \<longrightarrow>
           snd (results ! i) = js ''Not Interested'') \<and>
        (\<forall>c. categorizeEmail_try env (emails ! i) = Inr c \<longrightarrow> snd (results ! i) = c))"
  by (auto simp: batchCategorizeEmails_eq categorizeEmail_def)

theorem batchCategorizeEmails_complete_witness:
  "categorizeEmail_try (failing_on (js ''Re: pricing'')) mail_a = Inr (js ''Interested'') \<and>
   categorizeEmail_try (failing_on (js ''Re: pricing'')) mail_b = Inl (Error (js ''429'')) \<and>
   batchCategorizeEmails (failing_on (js ''Re: pricing'')) [mail_a, mail_b] =
     (Inr [(js ''1'', js ''Interested''), (js ''2'', js ''Not Interested'')],
      [Categorize (js ''1''), Sleep 100, Categorize (js ''2''), Sleep 100])"
proof -
  let ?env = "failing_on (js ''Re: pricing'')"
  have a: "categorizeEmail_try ?env mail_a = Inr (js ''Interested'')"
    by (simp add: categorizeEmail_try_def failing_on_def falsy_def categorization_request_def
          buildCategorizationPrompt_def unlines_def mail_a_def trim_def isWhiteSpace_def
          categories_def js_def)
  have b: "categorizeEmail_try ?env mail_b = Inl (Error (js ''429''))"
    by (simp add: categorizeEmail_try_def failing_on_def falsy_def categorization_request_def
          buildCategorizationPrompt_def unlines_def mail_a_def mail_b_def js_def)
  have ids: "id_field mail_a = js ''1''" "id_field mail_b = js ''2''"
    by (simp_all add: mail_a_def mail_b_def)
  obtain results where r:
    "batchCategorizeEmails ?env [mail_a, mail_b] =
       (Inr results,
        concat (map (\<lambda>e. [Categorize (id_field e), Sleep 100]) [mail_a, mail_b]))"
    "length results = length [mail_a, mail_b]"
    "\<forall>i < length [mail_a, mail_b].
        fst (results ! i) = id_field ([mail_a, mail_b] ! i) \<and>
        (\<forall>err. categorizeEmail_try ?env ([mail_a, mail_b] ! i) = Inl err \<longrightarrow>
           snd (results ! i) = js ''Not Interested'') \<and>
        (\<forall>c. categorizeEmail_try ?env ([mail_a, mail_b] ! i) = Inr c \<longrightarrow>
           snd (results ! i) = c)"
    using batchCategorizeEmails_complete [of ?env "[mail_a, mail_b]"] by blast
  from r(3) have r0: "results ! 0 = (js ''1'', js ''Interested'')"
    using a ids by (simp add: prod_eq_iff)
  from r(3) have r1: "results ! 1 = (js ''2'', js ''Not Interested'')"
    using b ids by (simp add: prod_eq_iff)
  from r(2) r0 r1 have "results = [(js ''1'', js ''Interested''), (js ''2'', js ''Not Interested'')]"
    by (cases results; cases "tl results"; cases "tl (tl results)") auto
  with r(1) a b ids show ?thesis by simp
qed


section \<open>The notification sinks\<close>

lemma sendNotification_trace:
  "fst (sendNotification w e) =
     (case SLACK_WEBHOOK_URL w of
        None \<Rightarrow> []
      | Some u \<Rightarrow> if u = [] then [] else [Post (slack_request u e)])"
  by (simp add: sendNotification_def sendNotification_try_def Let_def
           split: option.splits sum.splits)

lemma triggerWebhook_trace:
  "fst (triggerWebhook w e) =
     (case WEBHOOK_URL w of
        None \<Rightarrow> []
      | Some u \<Rightarrow> if u = [] then [] else [Post (webhook_request u e)])"
  by (simp add: triggerWebhook_def triggerWebhook_try_def Let_def
           split: option.splits sum.splits)

lemma triggerBatchWebhook_trace:
  "fst (triggerBatchWebhook w es) =
     (case WEBHOOK_URL w of
        None \<Rightarrow> []
      | Some u \<Rightarrow> if u = [] then [] else [Post (batch_webhook_request u es)])"
  by (simp add: triggerBatchWebhook_def triggerBatchWebhook_try_def Let_def
           split: option.splits sum.splits)

lemma sendNotification_result:
  "snd (sendNotification w e) \<longleftrightarrow>
     (\<exists>u. SLACK_WEBHOOK_URL w = Some u \<and> u \<noteq> [] \<and> axios_post w (slack_request u e) = Inr 200)"
  by (auto simp: sendNotification_def sendNotification_try_def Let_def
           split: option.splits sum.splits)

lemma triggerWebhook_result:
  "snd (triggerWebhook w e) \<longleftrightarrow>
     (\<exists>u st. WEBHOOK_URL w = Some u \<and> u \<noteq> [] \<and>
        axios_post w (webhook_request u e) = Inr st \<and> 200 \<le> st \<and> st < 300)"
  by (auto simp: triggerWebhook_def triggerWebhook_try_def Let_def
           split: option.splits sum.splits)

text \<open>
  C5. Each sink call returns a boolean for every behaviour of its endpoint (a missing
  URL, a rejected request and an unexpected status all give \<open>false\<close>) and has no
  exception left for its caller. The two fail independently: when the chat sink
  returns \<open>false\<close> the webhook sink is still invoked and issues its request, and
  when the webhook sink returns \<open>false\<close> the chat sink was invoked and issued its own.
\<close>

theorem sinks_fail_independently:
  "(snd (sendNotification w e) \<longleftrightarrow>
      (\<exists>u. SLACK_WEBHOOK_URL w = Some u \<and> u \<noteq> [] \<and>
           axios_post w (slack_request u e) = Inr 200)) \<and>
   (snd (triggerWebhook w e) \<longleftrightarrow>
      (\<exists>u st. WEBHOOK_URL w = Some u \<and> u \<noteq> [] \<and>
           axios_post w (webhook_request u e) = Inr st \<and> 200 \<le> st \<and> st < 300)) \<and>
   (\<not> snd (sendNotification w e) \<longrightarrow>
      TriggerWebhook e \<in> set (notify_interested w e (js ''Interested'')) \<and>
      set (fst (triggerWebhook w e)) \<subseteq> set (notify_interested w e (js ''Interested''))) \<and>
   (\<not> snd (triggerWebhook w e) \<longrightarrow>
      SendNotification e \<in> set (notify_interested w e (js ''Interested'')) \<and>
      set (fst (sendNotification w e)) \<subseteq> set (notify_interested w e (js ''Interested'')))"
  using sendNotification_result [of w e] triggerWebhook_result [of w e]
  by (auto simp: notify_interested_def)

lemma demo_slack_fails: "\<not> snd (sendNotification demo_world mail_a)"
  by (simp add: sendNotification_result demo_world_def slack_request_def)

lemma demo_webhook_post:
  "fst (triggerWebhook demo_world mail_a) = [Post (webhook_request sink_url mail_a)]"
  by (simp add: triggerWebhook_trace demo_world_def sink_url_def js_def)

lemma swapped_webhook_fails: "\<not> snd (triggerWebhook swapped_world mail_a)"
  by (simp add: triggerWebhook_result swapped_world_def demo_world_def webhook_request_def
        slack_url_def sink_url_def js_def)

lemma swapped_slack_post:
  "fst (sendNotification swapped_world mail_a) = [Post (slack_request slack_url mail_a)]"
  by (simp add: sendNotification_trace swapped_world_def demo_world_def slack_url_def js_def)

theorem sinks_fail_independently_witness:
  "\<not> snd (sendNotification demo_world mail_a) \<and>
   snd (triggerWebhook demo_world mail_a) \<and>
   Post (webhook_request sink_url mail_a)
     \<in> set (notify_interested demo_world mail_a (js ''Interested'')) \<and>
   \<not> snd (triggerWebhook swapped_world mail_a) \<and>
   snd (sendNotification swapped_world mail_a) \<and>
   Post (slack_request slack_url mail_a)
     \<in> set (notify_interested swapped_world mail_a (js ''Interested''))"
proof -
  have ok1: "snd (triggerWebhook demo_world mail_a)"
    by (simp add: triggerWebhook_result demo_world_def webhook_request_def
          slack_url_def sink_url_def js_def)
  have ok2: "snd (sendNotification swapped_world mail_a)"
    by (simp add: sendNotification_result swapped_world_def demo_world_def slack_request_def
          slack_url_def js_def)
  show ?thesis
    using sinks_fail_independently [of demo_world mail_a]
      sinks_fail_independently [of swapped_world mail_a]
      demo_slack_fails demo_webhook_post swapped_webhook_fails swapped_slack_post ok1 ok2
    by simp
qed

text \<open>
  C6, as the code has it. The single webhook call is made with a timeout of 10000 ms
  and the batch webhook call with one of 15000 ms; the chat-notification send passes no
  timeout in its request configuration.
\<close>

theorem sink_timeouts:
  "(\<forall>r. Post r \<in> set (fst (sendNotification w e)) \<longrightarrow> timeout r = None) \<and>
   (\<forall>r. Post r \<in> set (fst (triggerWebhook w e)) \<longrightarrow> timeout r = Some 10000) \<and>
   (\<forall>r. Post r \<in> set (fst (triggerBatchWebhook w es)) \<longrightarrow> timeout r = Some 15000)"
  by (auto simp: sendNotification_trace triggerWebhook_trace triggerBatchWebhook_trace
        slack_request_def webhook_request_def batch_webhook_request_def
      split: option.splits if_splits)

theorem sink_timeouts_witness:
  "Post (slack_request slack_url mail_a) \<in> set (fst (sendNotification swapped_world mail_a)) \<and>
   timeout (slack_request slack_url mail_a) = None \<and>
   Post (webhook_request sink_url mail_a) \<in> set (fst (triggerWebhook demo_world mail_a)) \<and>
   timeout (webhook_request sink_url mail_a) = Some 10000 \<and>
   Post (batch_webhook_request sink_url [mail_a, mail_b])
     \<in> set (fst (triggerBatchWebhook demo_world [mail_a, mail_b])) \<and>
   timeout (batch_webhook_request sink_url [mail_a, mail_b]) = Some 15000"
proof -
  have b: "fst (triggerBatchWebhook demo_world [mail_a, mail_b]) =
             [Post (batch_webhook_request sink_url [mail_a, mail_b])]"
    by (simp add: triggerBatchWebhook_trace demo_world_def sink_url_def js_def)
  show ?thesis
    using sink_timeouts [of swapped_world mail_a "[]"]
      sink_timeouts [of demo_world mail_a "[mail_a, mail_b]"]
      swapped_slack_post demo_webhook_post b
    by simp
qed

text \<open>
  C6 as stated fails: the request the chat sink issues carries no timeout of 5 seconds.
\<close>

theorem chat_timeout_counterexample:
  "fst (sendNotification swapped_world mail_a) = [Post (slack_request slack_url mail_a)] \<and>
   timeout (slack_request slack_url mail_a) \<noteq> Some 5000"
  by (simp add: sendNotification_trace swapped_world_def demo_world_def slack_url_def js_def
        slack_request_def)


section \<open>One message through the pipeline\<close>

lemma Callback_notin_sinks:
  "Callback \<notin> set (fst (sendNotification w e))" "Callback \<notin> set (fst (triggerWebhook w e))"
  by (simp_all add: sendNotification_trace triggerWebhook_trace split: option.splits)

lemma Callback_notin_fan_out: "Callback \<notin> set (fan_out w e c)"
  by (simp add: fan_out_def notify_interested_def new_email_event_def Callback_notin_sinks)

lemma Callback_notin_try: "Callback \<notin> set (fst (processEmailMessage_try w acct msg))"
  by (simp add: processEmailMessage_try_def Let_def Callback_notin_fan_out
           split: sum.splits option.splits)

lemma processEmailMessage_eq:
  "processEmailMessage w acct msg = fst (processEmailMessage_try w acct msg) @ [Callback]"
  by (simp add: processEmailMessage_def split: prod.splits option.splits)

lemma count_Callback: "count_list (processEmailMessage w acct msg) Callback = 1"
  using Callback_notin_try [of w acct msg]
  by (simp add: processEmailMessage_eq count_list_0_iff)

lemma count_Callback_batch:
  "count_list (process_batch w acct msgs) Callback = length msgs"
  by (induction msgs) (simp_all add: process_batch_def count_Callback)

text \<open>
  C3, as the code has it. For every raw payload the message handler has no exception
  left to throw and ends with exactly one call of its completion callback, so a batch
  with a bad message completes like any other and the siblings' processing is what it
  would be without it. A payload the parser rejects is skipped: nothing is stored,
  classified, notified or published for it. For a payload the parser accepts, the
  Message is handed to the store first, and every textual field the parser did not
  find is the empty string in it.
\<close>

theorem processEmailMessage_degrades:
  "(\<exists>tr. processEmailMessage w acct msg = tr @ [Callback] \<and> Callback \<notin> set tr) \<and>
   count_list (process_batch w acct (before @ msg # after)) Callback
     = length (before @ msg # after) \<and>
   (\<forall>err. simpleParser w (raw msg) = Inl err \<longrightarrow>
      processEmailMessage w acct msg = [Callback] \<and>
      process_batch w acct (before @ msg # after)
        = process_batch w acct before @ [Callback] @ process_batch w acct after) \<and>
   (\<forall>parsed. simpleParser w (raw msg) = Inr parsed \<longrightarrow>
      (\<exists>stored rest.
         stored = build_emailData w acct (attributes_of msg) parsed \<and>
         processEmailMessage w acct msg = IndexEmail stored # rest \<and>
         (parsed_from_text parsed = None \<longrightarrow> from_field stored = []) \<and>
         (parsed_to_text parsed = None \<longrightarrow> to_field stored = []) \<and>
         (parsed_subject parsed = None \<longrightarrow> subject stored = []) \<and>
         (parsed_text parsed = None \<longrightarrow> text_field stored = []) \<and>
         (parsed_html parsed = None \<longrightarrow> html stored = []) \<and>
         (parsed_messageId parsed = None \<longrightarrow> messageId stored = []) \<and>
         (parsed_inReplyTo parsed = None \<longrightarrow> inReplyTo stored = []) \<and>
         (parsed_references parsed = None \<longrightarrow> references stored = [])))"
proof (intro conjI allI impI)
  show "\<exists>tr. processEmailMessage w acct msg = tr @ [Callback] \<and> Callback \<notin> set tr"
    using Callback_notin_try [of w acct msg] processEmailMessage_eq [of w acct msg] by blast
next
  show "count_list (process_batch w acct (before @ msg # after)) Callback
          = length (before @ msg # after)"
    by (rule count_Callback_batch)
next
  fix err
  assume p: "simpleParser w (raw msg) = Inl err"
  then show one: "processEmailMessage w acct msg = [Callback]"
    by (simp add: processEmailMessage_def processEmailMessage_try_def)
  then show "process_batch w acct (before @ msg # after)
        = process_batch w acct before @ [Callback] @ process_batch w acct after"
    by (simp add: process_batch_def)
next
  fix parsed
  assume p: "simpleParser w (raw msg) = Inr parsed"
  let ?e = "build_emailData w acct (attributes_of msg) parsed"
  have run: "\<exists>rest. processEmailMessage w acct msg = IndexEmail ?e # rest"
    using p by (simp add: processEmailMessage_def processEmailMessage_try_def Let_def
                     split: option.splits)
  have fields:
    "parsed_from_text parsed = None \<longrightarrow> from_field ?e = []"
    "parsed_to_text parsed = None \<longrightarrow> to_field ?e = []"
    "parsed_subject parsed = None \<longrightarrow> subject ?e = []"
    "parsed_text parsed = None \<longrightarrow> text_field ?e = []"
    "parsed_html parsed = None \<longrightarrow> html ?e = []"
    "parsed_messageId parsed = None \<longrightarrow> messageId ?e = []"
    "parsed_inReplyTo parsed = None \<longrightarrow> inReplyTo ?e = []"
    "parsed_references parsed = None \<longrightarrow> references ?e = []"
    by (simp_all add: build_emailData_def or_empty_def)
  from run obtain rest where r: "processEmailMessage w acct msg = IndexEmail ?e # rest"
    by blast
  show "\<exists>stored rest.
         stored = build_emailData w acct (attributes_of msg) parsed \<and>
         processEmailMessage w acct msg = IndexEmail stored # rest \<and>
         (parsed_from_text parsed = None \<longrightarrow> from_field stored = []) \<and>
         (parsed_to_text parsed = None \<longrightarrow> to_field stored = []) \<and>
         (parsed_subject parsed = None \<longrightarrow> subject stored = []) \<and>
         (parsed_text parsed = None \<longrightarrow> text_field stored = []) \<and>
         (parsed_html parsed = None \<longrightarrow> html stored = []) \<and>
         (parsed_messageId parsed = None \<longrightarrow> messageId stored = []) \<and>
         (parsed_inReplyTo parsed = None \<longrightarrow> inReplyTo stored = []) \<and>
         (parsed_references parsed = None \<longrightarrow> references stored = [])"
    by (rule exI [of _ ?e], rule exI [of _ rest]) (simp add: r fields)
qed

lemma oversized_rejected:
  "simpleParser oversized_world (raw oversized_message)
     = Inl (Error (js ''Max header size for a MIME node exceeded''))"
  by (simp add: oversized_world_def oversized_message_def)

theorem processEmailMessage_degrades_witness:
  "simpleParser oversized_world (raw oversized_message)
     = Inl (Error (js ''Max header size for a MIME node exceeded'')) \<and>
   processEmailMessage oversized_world (js ''a@x.com'') oversized_message = [Callback] \<and>
   process_batch oversized_world (js ''a@x.com'')
       ([old_message] @ oversized_message # [lead_message])
     = process_batch oversized_world (js ''a@x.com'') [old_message] @ [Callback]
       @ process_batch oversized_world (js ''a@x.com'') [lead_message] \<and>
   simpleParser demo_world (raw garbage_message) = Inr bare_mail \<and>
   parsed_attachments bare_mail = Some [] \<and>
   (\<exists>stored rest.
      processEmailMessage demo_world (js ''a@x.com'') garbage_message = IndexEmail stored # rest \<and>
      from_field stored = [] \<and> to_field stored = [] \<and> subject stored = [] \<and>
      text_field stored = [] \<and> html stored = [] \<and> messageId stored = [] \<and>
      inReplyTo stored = [] \<and> references stored = [])"
proof -
  have b: "simpleParser demo_world (raw garbage_message) = Inr bare_mail"
    by (simp add: demo_world_def demo_parser_def garbage_message_def)
  have n: "parsed_from_text bare_mail = None" "parsed_to_text bare_mail = None"
    "parsed_subject bare_mail = None" "parsed_text bare_mail = None"
    "parsed_html bare_mail = None" "parsed_messageId bare_mail = None"
    "parsed_inReplyTo bare_mail = None" "parsed_references bare_mail = None"
    "parsed_attachments bare_mail = Some []"
    by (simp_all add: bare_mail_def)
  show ?thesis
    using oversized_rejected b n
      processEmailMessage_degrades
        [of oversized_world "js ''a@x.com''" oversized_message "[old_message]" "[lead_message]"]
      processEmailMessage_degrades
        [of demo_world "js ''a@x.com''" garbage_message "[]" "[]"]
    by auto
qed

text \<open>
  C3 as stated fails: for a payload the parser rejects (a header section beyond the
  parser's limit), the handler calls back and nothing else; no Message is built and
  nothing is stored.
\<close>

theorem unparseable_skipped_counterexample:
  "simpleParser oversized_world (raw oversized_message)
     = Inl (Error (js ''Max header size for a MIME node exceeded'')) \<and>
   processEmailMessage oversized_world (js ''a@x.com'') oversized_message = [Callback]"
  by (simp add: processEmailMessage_def processEmailMessage_try_def oversized_world_def
        oversized_message_def)

text \<open>
  C4. For a categorized Message the fan-out (lines 203 to 216) invokes the chat sink
  and then the webhook sink when the category is \<open>Interested\<close> and neither of them for
  any other category; in both cases it ends by emitting the \<open>new-email\<close> event with
  id, from, subject, category and date to the room \<open>email-updates\<close>, whatever the
  sinks returned. Every message that was parsed, stored and had its category written
  goes through this fan-out before its callback.
\<close>

theorem fan_out_routing:
  "(c = js ''Interested'' \<longrightarrow>
      fan_out w e c =
        SendNotification e # fst (sendNotification w e)
        @ TriggerWebhook e # fst (triggerWebhook w e)
        @ [Emit (js ''email-updates'') (js ''new-email'')
             (NewEmail (id_field e) (from_field e) (subject e) c (date e))]) \<and>
   (c \<noteq> js ''Interested'' \<longrightarrow>
      fan_out w e c =
        [Emit (js ''email-updates'') (js ''new-email'')
           (NewEmail (id_field e) (from_field e) (subject e) c (date e))]) \<and>
   (\<forall>parsed.
      simpleParser w (raw msg) = Inr parsed \<and>
      client_index w (build_emailData w acct (attributes_of msg) parsed) = None \<and>
      client_update w
        (id_field (build_emailData w acct (attributes_of msg) parsed))
        (categorizeEmail (ai w) (build_emailData w acct (attributes_of msg) parsed)) = None
      \<longrightarrow>
      (let e0 = build_emailData w acct (attributes_of msg) parsed;
           c0 = categorizeEmail (ai w) e0
       in processEmailMessage w acct msg =
            [IndexEmail e0, Categorize (id_field e0), UpdateEmailCategory (id_field e0) c0]
            @ fan_out w (e0\<lparr>category := Some c0\<rparr>) c0 @ [Callback]))"
  by (simp add: fan_out_def notify_interested_def new_email_event_def
        processEmailMessage_def processEmailMessage_try_def Let_def)

lemma demo_categorizes_Interested:
  "categorizeEmail (ai demo_world) e = js ''Interested''"
  by (simp add: categorizeEmail_def categorizeEmail_try_def demo_world_def answering_def
        falsy_def trim_def isWhiteSpace_def categories_def js_def)

theorem fan_out_routing_witness:
  "simpleParser demo_world (raw lead_message) = Inr lead_mail \<and>
   (let e0 = build_emailData demo_world (js ''a@x.com'') (attributes_of lead_message) lead_mail;
        e1 = e0\<lparr>category := Some (js ''Interested'')\<rparr>
    in processEmailMessage demo_world (js ''a@x.com'') lead_message =
         [IndexEmail e0, Categorize (js ''a@x.com_13''),
          UpdateEmailCategory (js ''a@x.com_13'') (js ''Interested''),
          SendNotification e1, Post (slack_request slack_url e1),
          TriggerWebhook e1, Post (webhook_request sink_url e1),
          Emit (js ''email-updates'') (js ''new-email'')
            (NewEmail (js ''a@x.com_13'') (js ''lead@x.com'') (js ''Pricing'')
               (js ''Interested'') 1793700000000),
          Callback]) \<and>
   fan_out demo_world mail_a (js ''Spam'') =
     [Emit (js ''email-updates'') (js ''new-email'')
        (NewEmail (js ''1'') (js ''lead@x.com'') (js ''Meeting Request'') (js ''Spam'') 0)]"
proof -
  let ?acct = "js ''a@x.com''"
  let ?e0 = "build_emailData demo_world ?acct (attributes_of lead_message) lead_mail"
  let ?e1 = "?e0\<lparr>category := Some (js ''Interested'')\<rparr>"
  have p: "simpleParser demo_world (raw lead_message) = Inr lead_mail"
    by (simp add: demo_world_def demo_parser_def lead_message_def js_def)
  have i: "client_index demo_world ?e0 = None" "client_update demo_world x y = None" for x y
    by (simp_all add: demo_world_def)
  have f: "id_field ?e0 = js ''a@x.com_13''" "from_field ?e0 = js ''lead@x.com''"
    "subject ?e0 = js ''Pricing''" "date ?e0 = 1793700000000"
    by (simp_all add: build_emailData_def attributes_of_def lead_message_def attrs_of_uid_def
          lead_mail_def bare_mail_def or_empty_def uid_text_def js_def)
  have s: "fst (sendNotification demo_world ?e1) = [Post (slack_request slack_url ?e1)]"
    by (simp add: sendNotification_trace demo_world_def slack_url_def js_def)
  have t: "fst (triggerWebhook demo_world ?e1) = [Post (webhook_request sink_url ?e1)]"
    by (simp add: triggerWebhook_trace demo_world_def sink_url_def js_def)
  have n: "js ''Spam'' \<noteq> js ''Interested''"
    by (simp add: js_def)
  have m: "id_field mail_a = js ''1''" "from_field mail_a = js ''lead@x.com''"
    "subject mail_a = js ''Meeting Request''" "date mail_a = 0"
    by (simp_all add: mail_a_def)
  have run: "processEmailMessage demo_world ?acct lead_message =
         [IndexEmail ?e0, Categorize (id_field ?e0),
          UpdateEmailCategory (id_field ?e0) (js ''Interested'')]
         @ fan_out demo_world ?e1 (js ''Interested'') @ [Callback]"
    using fan_out_routing [of "js ''Interested''" demo_world ?e1 lead_message ?acct] p i
    by (simp add: demo_categorizes_Interested Let_def)
  have fo: "fan_out demo_world ?e1 (js ''Interested'') =
        SendNotification ?e1 # fst (sendNotification demo_world ?e1)
        @ TriggerWebhook ?e1 # fst (triggerWebhook demo_world ?e1)
        @ [Emit (js ''email-updates'') (js ''new-email'')
             (NewEmail (id_field ?e1) (from_field ?e1) (subject ?e1) (js ''Interested'')
                (date ?e1))]"
    using fan_out_routing [of "js ''Interested''" demo_world ?e1 lead_message ?acct] by simp
  have sp: "fan_out demo_world mail_a (js ''Spam'') =
     [Emit (js ''email-updates'') (js ''new-email'')
        (NewEmail (id_field mail_a) (from_field mail_a) (subject mail_a) (js ''Spam'')
           (date mail_a))]"
    using fan_out_routing [of "js ''Spam''" demo_world mail_a lead_message ?acct] n by simp
  show ?thesis
    unfolding Let_def using p run fo sp s t f m by simp
qed



section \<open>The lifecycle of the service\<close>

lemma syncEmails_eq:
  "syncEmails w acct =
     (case openBox_reply (imap w acct) of
        Granted \<Rightarrow>
          ([OpenBox acct (js ''INBOX'') True,
            Uncaught (Error (js ''Incorrect number of arguments for search option: SINCE''))],
           Pending)
      | Refused err \<Rightarrow> ([OpenBox acct (js ''INBOX'') True], Rejected err)
      | Silent \<Rightarrow> ([OpenBox acct (js ''INBOX'') True], Pending))"
  by (simp add: syncEmails_def Let_def split: reply.splits)

lemma syncEmails_unresolved: "snd (syncEmails w acct) \<noteq> Resolved ()"
  by (simp add: syncEmails_eq split: reply.splits)

lemma initializeConnection_unresolved:
  "snd (snd (initializeConnection w s acct p)) \<noteq> Resolved ()"
  using syncEmails_unresolved [of w acct]
  by (auto simp: initializeConnection_def Let_def split: reply.splits prod.splits promise.splits)

lemma initializeConnection_keeps:
  "intervals (fst (initializeConnection w s acct p)) = intervals s"
  "isRunning (fst (initializeConnection w s acct p)) = isRunning s"
  using syncEmails_unresolved [of w acct]
  by (auto simp: initializeConnection_def Let_def split: reply.splits prod.splits promise.splits)

lemma start_loop_keeps:
  "intervals (fst (start_loop w ps s tr)) = intervals s \<and>
   isRunning (fst (start_loop w ps s tr)) = isRunning s \<and>
   (ps \<noteq> [] \<longrightarrow> snd (snd (start_loop w ps s tr)) \<noteq> Resolved ())"
proof (cases ps)
  case Nil
  then show ?thesis by simp
next
  case (Cons ep rest)
  obtain e q where ep: "ep = (e, q)" by (cases ep)
  obtain s' tr' r where ic: "initializeConnection w s (trim e) (trim q) = (s', tr', r)"
    by (cases "initializeConnection w s (trim e) (trim q)")
  have r: "r \<noteq> Resolved ()"
    using initializeConnection_unresolved [of w s "trim e" "trim q"] ic by simp
  have k: "intervals s' = intervals s" "isRunning s' = isRunning s"
    using initializeConnection_keeps [of w s "trim e" "trim q"] ic by simp_all
  from r k show ?thesis
    unfolding Cons ep by (cases r) (simp_all add: ic)
qed

text \<open>With the search as the service calls it, \<open>start\<close> never resolves, sets no
  timer and never raises the running flag.\<close>

lemma start_unresolved:
  "snd (snd (start w s)) \<noteq> Resolved ()"
  "intervals (fst (start w s)) = intervals s"
  "isRunning (fst (start w s)) = isRunning s"
proof -
  let ?ps = "zip (env_list (EMAIL_ACCOUNTS w)) (env_list (EMAIL_PASSWORDS w))"
  obtain s' tr r where l: "start_loop w ?ps s [] = (s', tr, r)"
    by (cases "start_loop w ?ps s []")
  have k: "intervals s' = intervals s" "isRunning s' = isRunning s"
    "?ps \<noteq> [] \<longrightarrow> r \<noteq> Resolved ()"
    using start_loop_keeps [of w ?ps s "[]"] l by simp_all
  have ne: "env_list (EMAIL_ACCOUNTS w) \<noteq> [] \<Longrightarrow>
      length (env_list (EMAIL_ACCOUNTS w)) = length (env_list (EMAIL_PASSWORDS w)) \<Longrightarrow> ?ps \<noteq> []"
    by (cases "env_list (EMAIL_ACCOUNTS w)"; cases "env_list (EMAIL_PASSWORDS w)") simp_all
  show "snd (snd (start w s)) \<noteq> Resolved ()"
    using k ne by (cases r) (auto simp: start_def Let_def l)
  show "intervals (fst (start w s)) = intervals s"
    using k ne by (cases r) (auto simp: start_def Let_def l)
  show "isRunning (fst (start w s)) = isRunning s"
    using k ne by (cases r) (auto simp: start_def Let_def l)
qed

lemma tick_never_searches:
  "set (checkForNewEmails w s acct) \<subseteq>
     {OpenBox acct (js ''INBOX'') True,
      Uncaught (Error (js ''Incorrect number of arguments for search option: SINCE''))}"
  by (simp add: checkForNewEmails_def Let_def split: reply.splits)

lemma demo_start:
  "start demo_world constructor =
     (\<lparr>connections = [(js ''a@x.com'', 0)], isRunning = False, imap_objects = [Ready],
       intervals = []\<rparr>,
      [Connect (js ''a@x.com'') (js ''secret''),
       OpenBox (js ''a@x.com'') (js ''INBOX'') True,
       Uncaught (Error (js ''Incorrect number of arguments for search option: SINCE''))],
      Pending)"
  by (simp add: start_def env_list_def demo_world_def initializeConnection_def syncEmails_eq
        demo_server_def Let_def constructor_def map_set_def map_has_def trim_def
        isWhiteSpace_def js_def)

text \<open>
  C8 at two configurations. With both variables set to the empty string, \<open>split\<close>
  gives one account with the empty name: neither check fires, \<open>start\<close> throws nothing
  and attempts a connection for it. With one account whose server accepts the login and opens the
  box, the initial backfill fails by the exception of \<open>imap.search\<close>, which is
  uncaught: \<open>start\<close> neither resolves nor rejects, and nothing propagates out of it.
\<close>

theorem start_blank_and_pending:
  "env_list (EMAIL_ACCOUNTS blank_world) = [[]] \<and>
   env_list (EMAIL_PASSWORDS blank_world) = [[]] \<and>
   start blank_world constructor =
     (\<lparr>connections = [], isRunning = False, imap_objects = [Connecting], intervals = []\<rparr>,
      [Connect [] []],
      Pending) \<and>
   start demo_world constructor =
     (\<lparr>connections = [(js ''a@x.com'', 0)], isRunning = False, imap_objects = [Ready],
       intervals = []\<rparr>,
      [Connect (js ''a@x.com'') (js ''secret''),
       OpenBox (js ''a@x.com'') (js ''INBOX'') True,
       Uncaught (Error (js ''Incorrect number of arguments for search option: SINCE''))],
      Pending)"
proof -
  have b: "env_list (EMAIL_ACCOUNTS blank_world) = [[]]"
    "env_list (EMAIL_PASSWORDS blank_world) = [[]]"
    by (simp_all add: blank_world_def env_list_def)
  have s: "start blank_world constructor =
     (\<lparr>connections = [], isRunning = False, imap_objects = [Connecting], intervals = []\<rparr>,
      [Connect [] []],
      Pending)"
  proof -
    have i: "initializeConnection blank_world constructor [] [] =
       (\<lparr>connections = [], isRunning = False, imap_objects = [Connecting], intervals = []\<rparr>,
        [Connect [] []], Pending)"
      by (simp add: initializeConnection_def blank_world_def Let_def constructor_def)
    have t: "trim [] = []"
      by (simp add: trim_def)
    show ?thesis
      by (simp add: start_def b i t)
  qed
  from b s demo_start show ?thesis by simp
qed

lemma imap_end_idem: "imap_end (imap_end st) = imap_end st"
  by (cases st) (simp_all add: imap_end_def)

lemma stop_loop_trace:
  "snd (stop_loop w cs objs tr) = tr @ map (\<lambda>c. ConnectionEnd (fst c)) cs"
  by (induction cs arbitrary: objs tr) (auto split: prod.splits)

lemma stop_loop_length: "length (fst (stop_loop w cs objs tr)) = length objs"
  by (induction cs arbitrary: objs tr) (auto split: prod.splits)

lemma stop_loop_objects:
  "a < length objs \<Longrightarrow>
   fst (stop_loop w cs objs tr) ! a =
     (if \<exists>acct. (acct, a) \<in> set cs \<and> \<not> end_throws (imap w acct)
      then imap_end (objs ! a) else objs ! a)"
proof (induction cs arbitrary: objs tr)
  case Nil
  show ?case by simp
next
  case (Cons c cs)
  obtain acct0 a0 where c: "c = (acct0, a0)" by (cases c)
  show ?case
  proof (cases "end_throws (imap w acct0)")
    case True
    with c Cons.IH [OF Cons.prems, of tr] Cons.IH [OF Cons.prems, of "tr @ [ConnectionEnd acct0]"]
    show ?thesis by auto
  next
    case False
    let ?objs = "objs[a0 := imap_end (objs ! a0)]"
    have len: "a < length ?objs" using Cons.prems by simp
    have step: "fst (stop_loop w (c # cs) objs tr) ! a
                  = fst (stop_loop w cs ?objs (tr @ [ConnectionEnd acct0])) ! a"
      using c False by simp
    show ?thesis
    proof (cases "a = a0")
      case True
      with c False Cons.prems show ?thesis
        unfolding step Cons.IH [OF len] by (auto simp: imap_end_idem)
    next
      case neq: False
      with c False Cons.prems show ?thesis
        unfolding step Cons.IH [OF len] by auto
    qed
  qed
qed

lemma stop_state:
  "connections (fst (stop w s)) = []" "\<not> isRunning (fst (stop w s))"
  "imap_objects (fst (stop w s)) = fst (stop_loop w (connections s) (imap_objects s) [])"
  "snd (stop w s) = map (\<lambda>c. ConnectionEnd (fst c)) (connections s)"
  using stop_loop_trace [of w "connections s" "imap_objects s" "[]"]
  by (simp_all add: stop_def case_prod_beta)

lemma on_end_keeps_empty:
  "connections s = [] \<Longrightarrow> connections (foldl on_end s evs) = []"
  by (induction evs arbitrary: s) (simp_all add: on_end_def map_delete_def split: prod.splits)

lemma tick_unregistered:
  "connections s = [] \<Longrightarrow> checkForNewEmails w s acct = []"
  by (simp add: checkForNewEmails_def map_has_def)


lemma waiting_start:
  "start waiting_world constructor =
     (\<lparr>connections = [(js ''a@x.com'', 0)], isRunning = False, imap_objects = [Ready],
       intervals = []\<rparr>,
      [Connect (js ''a@x.com'') (js ''secret''), OpenBox (js ''a@x.com'') (js ''INBOX'') True],
      Pending)"
  by (simp add: start_def env_list_def waiting_world_def demo_world_def initializeConnection_def
        syncEmails_eq demo_server_def Let_def constructor_def map_set_def map_has_def trim_def
        isWhiteSpace_def js_def)

lemma connecting_start:
  "start connecting_world constructor =
     (\<lparr>connections = [], isRunning = False, imap_objects = [Connecting], intervals = []\<rparr>,
      [Connect (js ''a@x.com'') (js ''secret'')],
      Pending)"
  by (simp add: start_def env_list_def connecting_world_def demo_world_def
        initializeConnection_def demo_server_def Let_def constructor_def trim_def
        isWhiteSpace_def js_def)

text \<open>
  C9, as the code has it. \<open>stop\<close> calls \<open>end()\<close> on the Imap object of every
  account that is in the registry, in the Map's order, clears the registry and the
  running flag, and returns in the same turn: a registered session that was ready is
  then logging out (unless its \<open>end()\<close> threw), and an Imap object that is not in the
  registry is left as it was. No tick of any account, in any state of the service and
  so in every state after \<open>stop\<close>, sends a search, fetches or processes a message; in
  the state \<open>stop\<close> leaves, and after any \<open>end\<close> events, a tick does nothing at all.
\<close>

theorem stop_ends_sessions:
  "connections (fst (stop w s)) = [] \<and>
   \<not> isRunning (fst (stop w s)) \<and>
   snd (stop w s) = map (\<lambda>c. ConnectionEnd (fst c)) (connections s) \<and>
   (\<forall>acct a. (acct, a) \<in> set (connections s) \<and> a < length (imap_objects s) \<and>
        \<not> end_throws (imap w acct) \<and> imap_objects s ! a = Ready \<longrightarrow>
        imap_objects (fst (stop w s)) ! a = LoggingOut) \<and>
   (\<forall>a. a < length (imap_objects s) \<and> (\<forall>acct. (acct, a) \<notin> set (connections s)) \<longrightarrow>
        imap_objects (fst (stop w s)) ! a = imap_objects s ! a) \<and>
   (\<forall>w' evs acct. checkForNewEmails w' (foldl on_end (fst (stop w s)) evs) acct = []) \<and>
   (\<forall>w' s' acct.
      set (checkForNewEmails w' s' acct) \<subseteq>
        {OpenBox acct (js ''INBOX'') True,
         Uncaught (Error (js ''Incorrect number of arguments for search option: SINCE''))})"
proof (intro conjI allI impI)
  show "connections (fst (stop w s)) = []" by (rule stop_state)
  show "\<not> isRunning (fst (stop w s))" by (rule stop_state)
  show "snd (stop w s) = map (\<lambda>c. ConnectionEnd (fst c)) (connections s)" by (rule stop_state)
next
  fix acct a
  assume h: "(acct, a) \<in> set (connections s) \<and> a < length (imap_objects s) \<and>
        \<not> end_throws (imap w acct) \<and> imap_objects s ! a = Ready"
  then have "imap_objects (fst (stop w s)) ! a = imap_end (imap_objects s ! a)"
    using stop_loop_objects [of a "imap_objects s" w "connections s" "[]"]
    by (auto simp: stop_state)
  with h show "imap_objects (fst (stop w s)) ! a = LoggingOut"
    by (simp add: imap_end_def)
next
  fix a
  assume h: "a < length (imap_objects s) \<and> (\<forall>acct. (acct, a) \<notin> set (connections s))"
  then show "imap_objects (fst (stop w s)) ! a = imap_objects s ! a"
    using stop_loop_objects [of a "imap_objects s" w "connections s" "[]"]
    by (auto simp: stop_state)
next
  fix w' evs acct
  show "checkForNewEmails w' (foldl on_end (fst (stop w s)) evs) acct = []"
    by (rule tick_unregistered) (rule on_end_keeps_empty, rule stop_state)
next
  fix w' s' acct
  show "set (checkForNewEmails w' s' acct) \<subseteq>
        {OpenBox acct (js ''INBOX'') True,
         Uncaught (Error (js ''Incorrect number of arguments for search option: SINCE''))}"
    by (rule tick_never_searches)
qed

theorem stop_ends_sessions_witness:
  "(js ''a@x.com'', 0) \<in> set (connections (fst (start waiting_world constructor))) \<and>
   0 < length (imap_objects (fst (start waiting_world constructor))) \<and>
   \<not> end_throws (imap waiting_world (js ''a@x.com'')) \<and>
   imap_objects (fst (start waiting_world constructor)) ! 0 = Ready \<and>
   imap_objects (fst (stop waiting_world (fst (start waiting_world constructor)))) ! 0
     = LoggingOut \<and>
   snd (stop waiting_world (fst (start waiting_world constructor)))
     = [ConnectionEnd (js ''a@x.com'')] \<and>
   checkForNewEmails demo_world (fst (stop waiting_world (fst (start waiting_world constructor))))
     (js ''a@x.com'') = [] \<and>
   0 < length (imap_objects (fst (start connecting_world constructor))) \<and>
   (\<forall>acct. (acct, 0) \<notin> set (connections (fst (start connecting_world constructor)))) \<and>
   imap_objects (fst (stop connecting_world (fst (start connecting_world constructor)))) ! 0
     = Connecting"
proof -
  let ?s = "fst (start waiting_world constructor)"
  let ?c = "fst (start connecting_world constructor)"
  have h: "(js ''a@x.com'', 0) \<in> set (connections ?s)"
    "0 < length (imap_objects ?s)"
    "\<not> end_throws (imap waiting_world (js ''a@x.com''))"
    "imap_objects ?s ! 0 = Ready"
    "connections ?s = [(js ''a@x.com'', 0)]"
    by (simp_all add: waiting_start) (simp add: waiting_world_def demo_server_def)
  have g: "0 < length (imap_objects ?c)" "\<forall>acct. (acct, 0) \<notin> set (connections ?c)"
    "imap_objects ?c ! 0 = Connecting"
    by (simp_all add: connecting_start)
  have t: "checkForNewEmails demo_world (foldl on_end (fst (stop waiting_world ?s)) [])
             (js ''a@x.com'') = []"
    using stop_ends_sessions [of waiting_world ?s] by blast
  have l: "imap_objects (fst (stop waiting_world ?s)) ! 0 = LoggingOut"
    using stop_ends_sessions [of waiting_world ?s] h by blast
  have e: "snd (stop waiting_world ?s) = [ConnectionEnd (js ''a@x.com'')]"
    using stop_ends_sessions [of waiting_world ?s] h(5) by simp
  have u: "imap_objects (fst (stop connecting_world ?c)) ! 0 = imap_objects ?c ! 0"
    using stop_ends_sessions [of connecting_world ?c] g by blast
  from h g t l e u show ?thesis by simp
qed

text \<open>
  C9 as stated fails twice. When \<open>stop\<close> is called while \<open>start\<close> waits for the
  server to open the box, it returns with the account's session asked to log out and
  not closed; the session is closed by the \<open>end\<close> event that arrives later. When it
  is called while the account is still connecting, the session is not in the registry
  and \<open>stop\<close> makes no call on it at all.
\<close>

theorem stop_returns_before_close_counterexample:
  "fst (start waiting_world constructor) =
     \<lparr>connections = [(js ''a@x.com'', 0)], isRunning = False, imap_objects = [Ready],
      intervals = []\<rparr> \<and>
   stop waiting_world (fst (start waiting_world constructor)) =
     (\<lparr>connections = [], isRunning = False, imap_objects = [LoggingOut], intervals = []\<rparr>,
      [ConnectionEnd (js ''a@x.com'')]) \<and>
   LoggingOut \<noteq> Closed \<and>
   imap_objects (on_end (fst (stop waiting_world (fst (start waiting_world constructor))))
                   (js ''a@x.com'', 0)) = [Closed] \<and>
   fst (start connecting_world constructor) =
     \<lparr>connections = [], isRunning = False, imap_objects = [Connecting], intervals = []\<rparr> \<and>
   stop connecting_world (fst (start connecting_world constructor)) =
     (\<lparr>connections = [], isRunning = False, imap_objects = [Connecting], intervals = []\<rparr>,
      [])"
proof -
  let ?s = "\<lparr>connections = [(js ''a@x.com'', 0)], isRunning = False, imap_objects = [Ready],
             intervals = []\<rparr>"
  let ?c = "\<lparr>connections = [], isRunning = False, imap_objects = [Connecting],
             intervals = []\<rparr>"
  have s: "fst (start waiting_world constructor) = ?s"
    by (simp add: waiting_start)
  have c: "fst (start connecting_world constructor) = ?c"
    by (simp add: connecting_start)
  have e: "\<not> end_throws (imap waiting_world (js ''a@x.com''))"
    by (simp add: waiting_world_def demo_server_def)
  have t: "stop waiting_world ?s =
     (\<lparr>connections = [], isRunning = False, imap_objects = [LoggingOut], intervals = []\<rparr>,
      [ConnectionEnd (js ''a@x.com'')])"
    using e by (simp add: stop_def imap_end_def)
  have u: "stop connecting_world ?c = (?c, [])"
    by (simp add: stop_def)
  show ?thesis
    unfolding s c t u by (simp add: on_end_def)
qed

text \<open>
  C10. On every instance the own property \<open>isRunning\<close>, a boolean the constructor
  assigns and \<open>start\<close> and \<open>stop\<close> reassign, hides the prototype's method of the same
  name: the call \<open>imapSyncService.isRunning()\<close> of the \<open>/health\<close> handler throws a
  \<open>TypeError\<close> on the instance the constructor leaves, after \<open>start\<close> and after
  \<open>stop\<close>, and never returns the flag; the endpoint answers 500.
\<close>

theorem isRunning_shadowed:
  "prototype_property ''isRunning'' = Some (Function ''isRunning'') \<and>
   get_property s ''isRunning'' = Some (Boolean (isRunning s)) \<and>
   call_isRunning s = Inl TypeError \<and>
   call_isRunning constructor = Inl TypeError \<and>
   call_isRunning (fst (start w s)) = Inl TypeError \<and>
   call_isRunning (fst (stop w s)) = Inl TypeError \<and>
   health_status s = 500"
  by (simp add: health_status_def call_isRunning_def get_property_def own_property_def
        prototype_property_def)


theorem isRunning_shadowed_witness:
  "call_isRunning constructor = Inl TypeError \<and>
   \<not> isRunning (fst (start demo_world constructor)) \<and>
   call_isRunning (fst (start demo_world constructor)) = Inl TypeError \<and>
   call_isRunning (fst (stop demo_world (fst (start demo_world constructor)))) = Inl TypeError \<and>
   health_status (fst (start demo_world constructor)) = 500"
proof -
  have r: "\<not> isRunning (fst (start demo_world constructor))"
    by (simp add: demo_start)
  show ?thesis
    using isRunning_shadowed [of constructor demo_world]
      isRunning_shadowed [of "fst (start demo_world constructor)" demo_world] r
    by simp
qed


section \<open>Search windows\<close>

text \<open>
  C2 at a concrete start, at 2026-11-03 15:00. The date the backfill puts in its
  criteria is the calendar day 2026-10-04 (day 20730, which begins fifteen hours before
  the instant thirty days back), but the search is never sent: \<open>imap.search\<close> throws
  on the flat criteria array, the promise of \<open>syncEmails\<close> stays pending and \<open>start\<close>
  registers no timer, so no tick ever runs. A tick, were it called on the state
  \<open>start\<close> leaves, would build the date of one minute ago, the calendar day of the
  tick itself (day 20760), and would stop at the same exception after opening the box.
\<close>

theorem searches_never_sent:
  "format_DD_MMM_YYYY (now demo_world - 30 * 86400000) = 20730 \<and>
   20730 * 86400000 + 15 * 3600000 = now demo_world - 30 * 86400000 \<and>
   syncEmails demo_world (js ''a@x.com'') =
     ([OpenBox (js ''a@x.com'') (js ''INBOX'') True,
       Uncaught (Error (js ''Incorrect number of arguments for search option: SINCE''))],
      Pending) \<and>
   intervals (fst (start demo_world constructor)) = [] \<and>
   format_DD_MMM_YYYY (now demo_world - 60000) = 20760 \<and>
   format_DD_MMM_YYYY (now demo_world) = 20760 \<and>
   checkForNewEmails demo_world (fst (start demo_world constructor)) (js ''a@x.com'') =
     [OpenBox (js ''a@x.com'') (js ''INBOX'') True,
      Uncaught (Error (js ''Incorrect number of arguments for search option: SINCE''))]"
proof -
  have n: "now demo_world = 1793718000000" "imap demo_world (js ''a@x.com'') = demo_server"
    by (simp_all add: demo_world_def)
  have o: "openBox_reply demo_server = Granted"
    by (simp add: demo_server_def)
  have d: "format_DD_MMM_YYYY (now demo_world - 30 * 86400000) = 20730"
    "format_DD_MMM_YYYY (now demo_world - 60000) = 20760"
    "format_DD_MMM_YYYY (now demo_world) = 20760"
    by (simp_all add: format_DD_MMM_YYYY_def n)
  have s: "syncEmails demo_world (js ''a@x.com'') =
     ([OpenBox (js ''a@x.com'') (js ''INBOX'') True,
       Uncaught (Error (js ''Incorrect number of arguments for search option: SINCE''))],
      Pending)"
    by (simp add: syncEmails_eq n o)
  have t: "checkForNewEmails demo_world (fst (start demo_world constructor)) (js ''a@x.com'') =
     [OpenBox (js ''a@x.com'') (js ''INBOX'') True,
      Uncaught (Error (js ''Incorrect number of arguments for search option: SINCE''))]"
    by (simp add: demo_start checkForNewEmails_def map_has_def n o Let_def)
  from d s t n show ?thesis by (simp add: demo_start)
qed


end
